theory Spec2Isabelle
  imports Complex_Main
begin

section \<open>The question-set evaluation route (src/app/api/evaluate-question-set/route.ts)\<close>

text \<open>
  A shallow embedding of the route handler: the per-question dispatcher with its two
  fallback tiers, the summary generator with its deterministic fallback scoring, the
  assembly of the aggregated report and the POST handler.

  Strings are byte lists. The source's Chinese literals are written as their UTF-8
  bytes; UTF-8 is injective, so equality of two literals is equality of the JavaScript
  strings. Each constant names the literal it stands for in its comment.
\<close>

subsection \<open>String literals\<close>

definition level_unassessable :: string where
  \<comment> \<open>the sentinel compared against in the filter of generateFallbackSummary ("cannot be assessed")\<close>
  "level_unassessable =
     [CHR 0xE6, CHR 0x97, CHR 0xA0, CHR 0xE6, CHR 0xB3, CHR 0x95,
      CHR 0xE8, CHR 0xAF, CHR 0x84, CHR 0xE4, CHR 0xBC, CHR 0xB0]"

definition level_assistant :: string where
  \<comment> \<open>key of levelScores with score 1, and the default overallLevel ("assistant level")\<close>
  "level_assistant =
     [CHR 0xE5, CHR 0x8A, CHR 0xA9, CHR 0xE7, CHR 0x90, CHR 0x86, CHR 0xE7, CHR 0xBA, CHR 0xA7]"

definition level_screenwriter :: string where
  \<comment> \<open>key of levelScores with score 2 ("screenwriter level")\<close>
  "level_screenwriter =
     [CHR 0xE7, CHR 0xBC, CHR 0x96, CHR 0xE5, CHR 0x89, CHR 0xA7, CHR 0xE7, CHR 0xBA, CHR 0xA7]"

definition level_producer :: string where
  \<comment> \<open>key of levelScores with score 3 ("producer level")\<close>
  "level_producer =
     [CHR 0xE5, CHR 0x88, CHR 0xB6, CHR 0xE7, CHR 0x89, CHR 0x87, CHR 0xE7, CHR 0xBA, CHR 0xA7]"

definition level_director :: string where
  \<comment> \<open>key of levelScores with score 4 ("director level")\<close>
  "level_director =
     [CHR 0xE5, CHR 0xAF, CHR 0xBC, CHR 0xE6, CHR 0xBC, CHR 0x94, CHR 0xE7, CHR 0xBA, CHR 0xA7]"

definition level_professional :: string where
  \<comment> \<open>overallLevel for an average of at least 1.5 ("professional level")\<close>
  "level_professional =
     [CHR 0xE4, CHR 0xB8, CHR 0x93, CHR 0xE4, CHR 0xB8, CHR 0x9A, CHR 0xE7, CHR 0xBA, CHR 0xA7]"

definition level_senior :: string where
  \<comment> \<open>overallLevel for an average of at least 2.5 ("senior level")\<close>
  "level_senior =
     [CHR 0xE8, CHR 0xB5, CHR 0x84, CHR 0xE6, CHR 0xB7, CHR 0xB1, CHR 0xE7, CHR 0xBA, CHR 0xA7]"

definition level_chief :: string where
  \<comment> \<open>overallLevel for an average of at least 3.5 ("chief level")\<close>
  "level_chief =
     [CHR 0xE6, CHR 0x80, CHR 0xBB, CHR 0xE7, CHR 0x9B, CHR 0x91, CHR 0xE7, CHR 0xBA, CHR 0xA7]"

definition unanswered :: string where
  \<comment> \<open>the placeholder put in place of a missing answer ("not answered")\<close>
  "unanswered =
     [CHR 0xE6, CHR 0x9C, CHR 0xAA, CHR 0xE5, CHR 0x9B, CHR 0x9E, CHR 0xE7, CHR 0xAD, CHR 0x94]"

definition difficulty_medium :: string where
  \<comment> \<open>the fixed difficulty of every request ("medium")\<close>
  "difficulty_medium = [CHR 0xE4, CHR 0xB8, CHR 0xAD, CHR 0xE7, CHR 0xAD, CHR 0x89]"

definition generalKeyPoints :: "string list" where
  \<comment> \<open>the four generic key points of every request\<close>
  "generalKeyPoints =
    [[CHR 0xE7, CHR 0x90, CHR 0x86, CHR 0xE8, CHR 0xA7, CHR 0xA3, CHR 0xE9, CHR 0x97, CHR 0xAE,
      CHR 0xE9, CHR 0xA2, CHR 0x98, CHR 0xE6, CHR 0xA0, CHR 0xB8, CHR 0xE5, CHR 0xBF, CHR 0x83],
     [CHR 0xE5, CHR 0xB1, CHR 0x95, CHR 0xE7, CHR 0x8E, CHR 0xB0, CHR 0x41, CHR 0x49, CHR 0xE4,
      CHR 0xBA, CHR 0xA7, CHR 0xE5, CHR 0x93, CHR 0x81, CHR 0xE6, CHR 0x80, CHR 0x9D, CHR 0xE7,
      CHR 0xBB, CHR 0xB4],
     [CHR 0xE6, CHR 0x8F, CHR 0x90, CHR 0xE4, CHR 0xBE, CHR 0x9B, CHR 0xE5, CHR 0x85, CHR 0xB7,
      CHR 0xE4, CHR 0xBD, CHR 0x93, CHR 0xE5, CHR 0x8F, CHR 0xAF, CHR 0xE8, CHR 0xA1, CHR 0x8C,
      CHR 0xE7, CHR 0x9A, CHR 0x84, CHR 0xE8, CHR 0xA7, CHR 0xA3, CHR 0xE5, CHR 0x86, CHR 0xB3,
      CHR 0xE6, CHR 0x96, CHR 0xB9, CHR 0xE6, CHR 0xA1, CHR 0x88],
     [CHR 0xE8, CHR 0x80, CHR 0x83, CHR 0xE8, CHR 0x99, CHR 0x91, CHR 0xE6, CHR 0x8A, CHR 0x80,
      CHR 0xE6, CHR 0x9C, CHR 0xAF, CHR 0xE4, CHR 0xB8, CHR 0x8E, CHR 0xE5, CHR 0x95, CHR 0x86,
      CHR 0xE4, CHR 0xB8, CHR 0x9A, CHR 0xE7, CHR 0x9A, CHR 0x84, CHR 0xE5, CHR 0xB9, CHR 0xB3,
      CHR 0xE8, CHR 0xA1, CHR 0xA1]]"

definition summary_part1 :: string where
  \<comment> \<open>the template of overallSummary before the stage title\<close>
  "summary_part1 = [CHR 0xE5, CHR 0x9C, CHR 0xA8]"

definition summary_part2 :: string where
  \<comment> \<open>between the stage title and the question count\<close>
  "summary_part2 = [CHR 0xE7, CHR 0x9A, CHR 0x84]"

definition summary_part3 :: string where
  \<comment> \<open>between the question count and the overall level\<close>
  "summary_part3 =
     [CHR 0xE9, CHR 0x81, CHR 0x93, CHR 0xE9, CHR 0xA2, CHR 0x98, CHR 0xE7, CHR 0x9B, CHR 0xAE,
      CHR 0xE4, CHR 0xB8, CHR 0xAD, CHR 0xEF, CHR 0xBC, CHR 0x8C, CHR 0xE9, CHR 0x9D, CHR 0xA2,
      CHR 0xE8, CHR 0xAF, CHR 0x95, CHR 0xE8, CHR 0x80, CHR 0x85, CHR 0xE6, CHR 0x95, CHR 0xB4,
      CHR 0xE4, CHR 0xBD, CHR 0x93, CHR 0xE8, CHR 0xA1, CHR 0xA8, CHR 0xE7, CHR 0x8E, CHR 0xB0,
      CHR 0xE8, CHR 0xBE, CHR 0xBE, CHR 0xE5, CHR 0x88, CHR 0xB0]"

definition summary_part4 :: string where
  \<comment> \<open>after the overall level, to the end of the text\<close>
  "summary_part4 =
     [CHR 0xE6, CHR 0xB0, CHR 0xB4, CHR 0xE5, CHR 0xB9, CHR 0xB3, CHR 0xE3, CHR 0x80, CHR 0x82,
      CHR 0xE5, CHR 0xB1, CHR 0x95, CHR 0xE7, CHR 0x8E, CHR 0xB0, CHR 0xE4, CHR 0xBA, CHR 0x86,
      CHR 0xE4, CHR 0xB8, CHR 0x80, CHR 0xE5, CHR 0xAE, CHR 0x9A, CHR 0xE7, CHR 0x9A, CHR 0x84,
      CHR 0x41, CHR 0x49, CHR 0xE4, CHR 0xBA, CHR 0xA7, CHR 0xE5, CHR 0x93, CHR 0x81, CHR 0xE6,
      CHR 0x80, CHR 0x9D, CHR 0xE7, CHR 0xBB, CHR 0xB4, CHR 0xE5, CHR 0x92, CHR 0x8C, CHR 0xE4,
      CHR 0xB8, CHR 0x93, CHR 0xE4, CHR 0xB8, CHR 0x9A, CHR 0xE8, CHR 0x83, CHR 0xBD, CHR 0xE5,
      CHR 0x8A, CHR 0x9B, CHR 0xEF, CHR 0xBC, CHR 0x8C, CHR 0xE4, CHR 0xBD, CHR 0x86, CHR 0xE5,
      CHR 0x9C, CHR 0xA8, CHR 0xE6, CHR 0x9F, CHR 0x90, CHR 0xE4, CHR 0xBA, CHR 0x9B, CHR 0xE6,
      CHR 0x96, CHR 0xB9, CHR 0xE9, CHR 0x9D, CHR 0xA2, CHR 0xE4, CHR 0xBB, CHR 0x8D, CHR 0xE6,
      CHR 0x9C, CHR 0x89, CHR 0xE6, CHR 0x8F, CHR 0x90, CHR 0xE5, CHR 0x8D, CHR 0x87, CHR 0xE7,
      CHR 0xA9, CHR 0xBA, CHR 0xE9, CHR 0x97, CHR 0xB4, CHR 0xE3, CHR 0x80, CHR 0x82, CHR 0xE5,
      CHR 0xBB, CHR 0xBA, CHR 0xE8, CHR 0xAE, CHR 0xAE, CHR 0xE7, CHR 0xBB, CHR 0xA7, CHR 0xE7,
      CHR 0xBB, CHR 0xAD, CHR 0xE5, CHR 0x8A, CHR 0xA0, CHR 0xE5, CHR 0xBC, CHR 0xBA, CHR 0xE5,
      CHR 0xAE, CHR 0x9E, CHR 0xE8, CHR 0xB7, CHR 0xB5, CHR 0xE7, CHR 0xBB, CHR 0x8F, CHR 0xE9,
      CHR 0xAA, CHR 0x8C, CHR 0xE5, CHR 0x92, CHR 0x8C, CHR 0xE6, CHR 0xB7, CHR 0xB1, CHR 0xE5,
      CHR 0xBA, CHR 0xA6, CHR 0xE6, CHR 0x80, CHR 0x9D, CHR 0xE8, CHR 0x80, CHR 0x83, CHR 0xE8,
      CHR 0x83, CHR 0xBD, CHR 0xE5, CHR 0x8A, CHR 0x9B, CHR 0xE3, CHR 0x80, CHR 0x82]"

definition processing_failed_prefix :: string where
  \<comment> \<open>the prefix of the error processEvaluation throws ("evaluation processing failed: ")\<close>
  "processing_failed_prefix =
     [CHR 0xE8, CHR 0xAF, CHR 0x84, CHR 0xE4, CHR 0xBC, CHR 0xB0, CHR 0xE5, CHR 0xA4, CHR 0x84,
      CHR 0xE7, CHR 0x90, CHR 0x86, CHR 0xE5, CHR 0xA4, CHR 0xB1, CHR 0xE8, CHR 0xB4, CHR 0xA5,
      CHR 0x3A, CHR 0x20]"

definition unknown_error :: string where
  \<comment> \<open>the message used for a thrown value that is not an Error ("unknown error")\<close>
  "unknown_error =
     [CHR 0xE6, CHR 0x9C, CHR 0xAA, CHR 0xE7, CHR 0x9F, CHR 0xA5, CHR 0xE9, CHR 0x94, CHR 0x99,
      CHR 0xE8, CHR 0xAF, CHR 0xAF]"

definition set_evaluation_failed :: string where
  \<comment> \<open>the error field of the POST handler's 500 reply ("question set evaluation failed")\<close>
  "set_evaluation_failed =
     [CHR 0xE5, CHR 0xA5, CHR 0x97, CHR 0xE9, CHR 0xA2, CHR 0x98, CHR 0xE8, CHR 0xAF, CHR 0x84,
      CHR 0xE4, CHR 0xBC, CHR 0xB0, CHR 0xE5, CHR 0xA4, CHR 0xB1, CHR 0xE8, CHR 0xB4, CHR 0xA5]"

definition evaluation_started :: string where
  \<comment> \<open>the message of the asynchronous reply ("evaluation started, the result is produced asynchronously")\<close>
  "evaluation_started =
     [CHR 0xE8, CHR 0xAF, CHR 0x84, CHR 0xE4, CHR 0xBC, CHR 0xB0, CHR 0xE5, CHR 0xB7, CHR 0xB2,
      CHR 0xE5, CHR 0x90, CHR 0xAF, CHR 0xE5, CHR 0x8A, CHR 0xA8, CHR 0xEF, CHR 0xBC, CHR 0x8C,
      CHR 0xE7, CHR 0xBB, CHR 0x93, CHR 0xE6, CHR 0x9E, CHR 0x9C, CHR 0xE5, CHR 0xB0, CHR 0x86,
      CHR 0xE5, CHR 0xBC, CHR 0x82, CHR 0xE6, CHR 0xAD, CHR 0xA5, CHR 0xE7, CHR 0x94, CHR 0x9F,
      CHR 0xE6, CHR 0x88, CHR 0x90]"

subsection \<open>Data model\<close>

text \<open>
  The types of \<^verbatim>\<open>types/evaluation\<close> are imported by the route and not part of the
  sources; the records hold the fields the route reads and writes. A record is
  extensible, as the absent declarations may hold more fields.
\<close>

record Strength =
  competency :: string
  description :: string

record Improvement =
  competency :: string
  suggestion :: string
  example :: string

record PreliminaryAnalysis =
  isValid :: bool

record IndividualEvaluationResponse =
  performanceLevel :: string
  summary :: string
  strengths :: "Strength list"
  improvements :: "Improvement list"
  preliminaryAnalysis :: PreliminaryAnalysis

record StageInfo =
  stageType :: string
  stageTitle :: string
  questionSetIndex :: int
  questionCount :: nat

subsection \<open>JavaScript numbers and the score table\<close>

text \<open>
  The numbers of the fallback scoring are sums of small integers and one quotient of
  such a sum by an array length. The sums are exact. The quotient is a double: the
  division of two integers that a double holds exactly gives the double nearest to
  their exact quotient, which is not that quotient in general (\<open>10 / 3\<close> is
  \<open>3.3333333333333335\<close>). A number is therefore an exact value (\<open>Fin\<close>) or the double
  nearest to a rational (\<open>Nearest\<close>), which the model names by that rational.
  \<open>NaN\<close> and \<open>Infinity\<close> are kept as values, as the division and the conversion of a
  string produce them.

  The thresholds of the scoring are doubles (multiples of one half). Rounding to the
  nearest double is monotone, so the double nearest to \<open>a / b\<close> is at least such a
  threshold \<open>c\<close> when \<open>a / b\<close> is; and when \<open>a / b\<close> is below \<open>c\<close> it is below by at
  least \<open>1 / (2 * b)\<close>, more than the distance between the doubles next to \<open>c\<close> for
  \<open>b\<close> below \<open>2 ^ 51\<close>, so the nearest double is below \<open>c\<close> too. For arrays below
  \<open>2 ^ 51\<close> elements, comparing the double quotient with a threshold is comparing the
  exact quotient, which is how \<open>js_ge\<close> compares.
\<close>

datatype jsnum = Fin rat | Nearest rat | PosInf | NaN

definition js_div :: "nat \<Rightarrow> nat \<Rightarrow> jsnum" where
  \<comment> \<open>\<open>a / b\<close> on non-negative integers: \<open>0 / 0\<close> is NaN, \<open>a / 0\<close> is Infinity, and every
      other quotient is the double nearest to the exact one\<close>
  "js_div a b =
     (if b = 0 then (if a = 0 then NaN else PosInf) else Nearest (rat_of_nat a / rat_of_nat b))"

fun js_ge :: "jsnum \<Rightarrow> rat \<Rightarrow> bool" where
  \<comment> \<open>\<open>x >= c\<close> for a threshold \<open>c\<close> that is a multiple of one half: every comparison
      with NaN is false\<close>
  "js_ge (Fin a) c = (c \<le> a)"
| "js_ge (Nearest q) c = (c \<le> q)"
| "js_ge PosInf c = True"
| "js_ge NaN c = False"

text \<open>
  \<open>levelScores[level]\<close> reads a property of an object literal: one of its four own keys,
  or a property the literal inherits from \<open>Object.prototype\<close> (a function, or the
  prototype itself for \<open>__proto__\<close>), or \<open>undefined\<close>.
\<close>

datatype property = Own nat | Inherited | Undefined

definition object_prototype_names :: "string list" where
  "object_prototype_names =
     [''constructor'', ''hasOwnProperty'', ''isPrototypeOf'', ''propertyIsEnumerable'',
      ''toLocaleString'', ''toString'', ''valueOf'', ''__proto__'', ''__defineGetter__'',
      ''__defineSetter__'', ''__lookupGetter__'', ''__lookupSetter__'']"

definition levelScores :: "string \<Rightarrow> property" where
  "levelScores level =
     (if level = level_assistant then Own 1
      else if level = level_screenwriter then Own 2
      else if level = level_producer then Own 3
      else if level = level_director then Own 4
      else if level \<in> set object_prototype_names then Inherited
      else Undefined)"

text \<open>
  The accumulator of the \<open>reduce\<close>: a number, or, once an inherited property has been
  added to it, a string. \<open>number + function\<close> and \<open>number + object\<close> concatenate the
  operands' texts, and so does every later \<open>string + number\<close>; the text holds
  \<open>function\<close> or \<open>[object Object]\<close> and never reads as a number.
\<close>

datatype score = Number nat | Text

fun add_score :: "score \<Rightarrow> property \<Rightarrow> score" where
  \<comment> \<open>\<open>sum + (levelScores[level] || 1)\<close>\<close>
  "add_score (Number s) (Own k) = Number (s + (if k = 0 then 1 else k))"
| "add_score (Number s) Undefined = Number (s + 1)"
| "add_score (Number s) Inherited = Text"
| "add_score Text p = Text"

fun score_div :: "score \<Rightarrow> nat \<Rightarrow> jsnum" where
  \<comment> \<open>\<open>totalScore / validEvaluations.length\<close>: a string that is not a number converts to NaN\<close>
  "score_div (Number t) n = js_div t n"
| "score_div Text n = NaN"

subsection \<open>generateFallbackSummary\<close>

definition validEvaluations :: "IndividualEvaluationResponse list \<Rightarrow> IndividualEvaluationResponse list" where
  "validEvaluations individualEvaluations =
     filter (\<lambda>evaluation. isValid (preliminaryAnalysis evaluation)
                         \<and> performanceLevel evaluation \<noteq> level_unassessable)
       individualEvaluations"

definition totalScore :: "IndividualEvaluationResponse list \<Rightarrow> score" where
  "totalScore valid =
     foldl (\<lambda>sum evaluation. add_score sum (levelScores (performanceLevel evaluation)))
       (Number 0) valid"

function show_nat :: "nat \<Rightarrow> string" where
  \<comment> \<open>the decimal text of a non-negative integer, as a template literal renders it\<close>
  "show_nat n =
     (if n < 10 then [''0123456789'' ! n]
      else show_nat (n div 10) @ [''0123456789'' ! (n mod 10)])"
  by pat_completeness auto
termination
  by (relation "measure id") auto

declare show_nat.simps [simp del]

record FallbackSummary =
  overallLevel :: string
  overallSummary :: string

record FallbackLog =
  loggedLevel :: string
  avgScore :: jsnum
  validCount :: nat

definition overallLevel_of :: "jsnum \<Rightarrow> string" where
  \<comment> \<open>the chain of comparisons on avgScore\<close>
  "overallLevel_of avg =
     (if js_ge avg (7 / 2) then level_chief
      else if js_ge avg (5 / 2) then level_senior
      else if js_ge avg (3 / 2) then level_professional
      else level_assistant)"

definition generateFallbackSummary ::
  "IndividualEvaluationResponse list \<Rightarrow> StageInfo \<Rightarrow> FallbackSummary \<times> FallbackLog" where
  \<comment> \<open>the returned object, and the values the function writes to the console\<close>
  "generateFallbackSummary individualEvaluations stageInfo =
     (let valid = validEvaluations individualEvaluations;
          (level, avg) =
            (if length valid > 0
             then (let avg' = score_div (totalScore valid) (length valid)
                   in (overallLevel_of avg', avg'))
             else (level_assistant, Fin 0));
          text = summary_part1 @ stageTitle stageInfo @ summary_part2
                 @ show_nat (questionCount stageInfo) @ summary_part3 @ level @ summary_part4
      in (\<lparr>overallLevel = level, overallSummary = text\<rparr>,
          \<lparr>loggedLevel = level, avgScore = avg, validCount = length valid\<rparr>))"

subsection \<open>JSON values and the external collaborators\<close>

datatype json =
    JNull
  | JBool bool
  | JNum rat
  | JStr string
  | JArr "json list"
  | JObj "(string \<times> json) list"

text \<open>
  A thrown value (the reason of a rejected promise): an \<open>Error\<close> with its message, or
  any other value.
\<close>

datatype thrown = Error string | NonError

fun message_of :: "thrown \<Rightarrow> string" where
  \<comment> \<open>\<open>error instanceof Error ? error.message : (unknown error)\<close>\<close>
  "message_of (Error m) = m"
| "message_of NonError = unknown_error"

record EvaluationRequest =
  question :: string
  category :: string
  difficulty :: string
  keyPoints :: "string list"
  userAnswer :: string
  stageType :: "string option"

text \<open>
  \<^verbatim>\<open>aiEvaluationService\<close> is imported from \<^verbatim>\<open>lib/ai-service\<close>, which is not part of the
  sources: its two methods are parameters. \<open>evaluateAnswer\<close> is an external call whose
  outcome may differ between two calls with equal requests, so it is given the index of
  the calling task as well. \<open>generateFallbackEvaluation\<close> takes the request and the
  optional failure reason; it is called synchronously and may throw.
\<close>

record Services =
  evaluateAnswer :: "nat \<Rightarrow> EvaluationRequest \<Rightarrow> thrown + IndividualEvaluationResponse"
  generateFallbackEvaluation ::
    "EvaluationRequest \<Rightarrow> thrown option \<Rightarrow> thrown + IndividualEvaluationResponse"

text \<open>
  The prompt of the aggregation call, as the data the template embeds: the stage title
  and type, the number of reports and, for every evaluation in order, its performance
  level, its summary, its strength descriptions joined by \<open>", "\<close> and its improvement
  suggestions joined by \<open>", "\<close>. The fixed text of the template is left out, but for the
  top-level keys of the reply format it asks for.
\<close>

record EvaluationDigest =
  digestLevel :: string
  digestSummary :: string
  digestStrengths :: string
  digestImprovements :: string

record SummaryPrompt =
  promptStageTitle :: string
  promptStageType :: string
  promptReportCount :: nat
  promptEvaluations :: "EvaluationDigest list"

definition requested_reply_fields :: "string list" where
  \<comment> \<open>the keys of the JSON object the prompt tells the model to reply with\<close>
  "requested_reply_fields = [''overallLevel'', ''summary'', ''strengths'', ''improvements'']"

datatype fetch_result =
    Rejected thrown
  | Response bool nat "string option"
  \<comment> \<open>\<open>ok\<close>, \<open>status\<close>, and the body text (\<open>None\<close> when reading the body fails)\<close>

text \<open>
  The world a run reads: the credential of the environment, the reply of the aggregation
  service, the runtime's \<open>JSON.parse\<close> (\<open>None\<close> for a SyntaxError) and string conversion,
  the text of the message of the TypeError the engine throws when the property
  \<open>overallLevel\<close> of \<open>null\<close> is read, the clock and the random source.
\<close>

record World =
  apiKey :: "string option"
  fetch :: "SummaryPrompt \<Rightarrow> fetch_result"
  JSON_parse :: "string \<Rightarrow> json option"
  toText :: "json \<Rightarrow> string"
  nullReadMessage :: string
  dateNow :: nat
  isoNow :: string
  mathRandom36 :: string

subsection \<open>The summary generator\<close>

fun join_with :: "string \<Rightarrow> string list \<Rightarrow> string" where
  \<comment> \<open>\<open>xs.join(sep)\<close>\<close>
  "join_with sep [] = []"
| "join_with sep [x] = x"
| "join_with sep (x # y # ys) = x @ sep @ join_with sep (y # ys)"

definition buildOverallSummaryPrompt ::
  "IndividualEvaluationResponse list \<Rightarrow> StageInfo \<Rightarrow> SummaryPrompt" where
  "buildOverallSummaryPrompt individualEvaluations stageInfo =
     \<lparr>promptStageTitle = stageTitle stageInfo,
      promptStageType = StageInfo.stageType stageInfo,
      promptReportCount = length individualEvaluations,
      promptEvaluations =
        map (\<lambda>e. \<lparr>digestLevel = performanceLevel e,
                   digestSummary = summary e,
                   digestStrengths = join_with '', '' (map description (strengths e)),
                   digestImprovements = join_with '', '' (map suggestion (improvements e))\<rparr>)
          individualEvaluations\<rparr>"

definition fallback_object :: "FallbackSummary \<Rightarrow> json" where
  \<comment> \<open>the object literal \<open>{ overallLevel, overallSummary }\<close> that generateFallbackSummary returns\<close>
  "fallback_object s =
     JObj [(''overallLevel'', JStr (overallLevel s)), (''overallSummary'', JStr (overallSummary s))]"

fun field_names :: "json \<Rightarrow> string list" where
  "field_names (JObj kvs) = map fst kvs"
| "field_names v = []"

text \<open>
  Reading the content of the reply, \<open>aiResponse.choices[0]?.message?.content\<close>. A value
  is a JSON value or \<open>undefined\<close> (\<open>None\<close>); reading a property of \<open>null\<close> or
  \<open>undefined\<close> throws a TypeError unless the access is optional.
\<close>

fun get_member :: "json \<Rightarrow> string \<Rightarrow> json option" where
  \<comment> \<open>a property that no prototype defines, read from a value that is not \<open>null\<close>\<close>
  "get_member (JObj kvs) name = map_of kvs name"
| "get_member v name = None"

fun first_element :: "json \<Rightarrow> json option" where
  \<comment> \<open>\<open>v[0]\<close> for a value that is not \<open>null\<close>\<close>
  "first_element (JArr (x # xs)) = Some x"
| "first_element (JStr (c # cs)) = Some (JStr [c])"
| "first_element (JObj kvs) = map_of kvs ''0''"
| "first_element v = None"

fun optional_member :: "json option \<Rightarrow> string \<Rightarrow> json option" where
  \<comment> \<open>\<open>v?.name\<close>\<close>
  "optional_member None name = None"
| "optional_member (Some JNull) name = None"
| "optional_member (Some v) name = get_member v name"

definition reply_content :: "json \<Rightarrow> thrown + json option" where
  "reply_content aiResponse =
     (case aiResponse of
        JNull \<Rightarrow> Inl (Error ''TypeError'')
      | _ \<Rightarrow>
        (case get_member aiResponse ''choices'' of
           None \<Rightarrow> Inl (Error ''TypeError'')
         | Some JNull \<Rightarrow> Inl (Error ''TypeError'')
         | Some choices \<Rightarrow>
             Inr (optional_member (optional_member (first_element choices) ''message'') ''content'')))"

fun falsy :: "json \<Rightarrow> bool" where
  \<comment> \<open>\<open>!v\<close> for a value that is not \<open>undefined\<close>\<close>
  "falsy JNull = True"
| "falsy (JBool b) = (\<not> b)"
| "falsy (JNum r) = (r = 0)"
| "falsy (JStr s) = (s = [])"
| "falsy v = False"

fun text_of :: "World \<Rightarrow> json \<Rightarrow> string" where
  \<comment> \<open>the argument of \<open>JSON.parse\<close> as a string\<close>
  "text_of w (JStr s) = s"
| "text_of w v = toText w v"

definition generateOverallSummary ::
  "World \<Rightarrow> IndividualEvaluationResponse list \<Rightarrow> StageInfo \<Rightarrow> json \<times> SummaryPrompt list" where
  \<comment> \<open>the summary it resolves to, and the requests it sent to the aggregation service\<close>
  "generateOverallSummary w individualEvaluations stageInfo =
     (let fallback = fallback_object (fst (generateFallbackSummary individualEvaluations stageInfo))
      in if apiKey w = None \<or> apiKey w = Some []
         then (fallback, [])
         else
           (let prompt = buildOverallSummaryPrompt individualEvaluations stageInfo
            in (case fetch w prompt of
                  Rejected error \<Rightarrow> fallback
                | Response ok status body \<Rightarrow>
                    if \<not> ok then fallback
                    else
                      (case Option.bind body (JSON_parse w) of
                         None \<Rightarrow> fallback
                       | Some aiResponse \<Rightarrow>
                           (case reply_content aiResponse of
                              Inl error \<Rightarrow> fallback
                            | Inr None \<Rightarrow> fallback
                            | Inr (Some content) \<Rightarrow>
                                if falsy content then fallback
                                else (case JSON_parse w (text_of w content) of
                                        None \<Rightarrow> fallback
                                      | Some summaryResult \<Rightarrow> summaryResult))),
                [prompt])))"

subsection \<open>The per-question dispatcher\<close>

definition answer_or_placeholder :: "string list \<Rightarrow> nat \<Rightarrow> string" where
  \<comment> \<open>\<open>answers[index] || (not answered)\<close>: an index past the end reads \<open>undefined\<close>, and
      \<open>undefined\<close> and the empty string are falsy\<close>
  "answer_or_placeholder answers index =
     (if index < length answers \<and> answers ! index \<noteq> [] then answers ! index else unanswered)"

definition requestData :: "string \<Rightarrow> string list \<Rightarrow> string \<Rightarrow> nat \<Rightarrow> EvaluationRequest" where
  \<comment> \<open>the request a task builds for its question\<close>
  "requestData stage answers q index =
     \<lparr>question = q, category = stage, difficulty = difficulty_medium,
      keyPoints = generalKeyPoints, userAnswer = answer_or_placeholder answers index,
      stageType = Some stage\<rparr>"

definition evaluationTask ::
  "Services \<Rightarrow> string \<Rightarrow> string list \<Rightarrow> string \<Rightarrow> nat \<Rightarrow> thrown + IndividualEvaluationResponse" where
  \<comment> \<open>the callback of \<open>questions.map\<close>: how its promise settles (\<open>Inr\<close> fulfilled, \<open>Inl\<close> rejected)\<close>
  "evaluationTask svc stage answers q index =
     (let request = requestData stage answers q index
      in case evaluateAnswer svc index request of
           Inr result \<Rightarrow> Inr result
         | Inl error \<Rightarrow> generateFallbackEvaluation svc request None)"

definition map_indexed :: "('a \<Rightarrow> nat \<Rightarrow> 'b) \<Rightarrow> 'a list \<Rightarrow> 'b list" where
  \<comment> \<open>\<open>xs.map((x, index) => f(x, index))\<close>\<close>
  "map_indexed f xs = map (\<lambda>(i, x). f x i) (enumerate 0 xs)"

definition settledEvaluations ::
  "Services \<Rightarrow> string \<Rightarrow> string list \<Rightarrow> string list \<Rightarrow> (thrown + IndividualEvaluationResponse) list" where
  \<comment> \<open>\<open>Promise.allSettled\<close> over the tasks: one outcome per task, in the order of the tasks\<close>
  "settledEvaluations svc stage questions answers =
     map_indexed (evaluationTask svc stage answers) questions"

definition lastResortRequest :: "string \<Rightarrow> string list \<Rightarrow> string list \<Rightarrow> nat \<Rightarrow> EvaluationRequest" where
  \<comment> \<open>the request rebuilt for a rejected task; it has no \<open>stageType\<close>\<close>
  "lastResortRequest stage questions answers index =
     \<lparr>question = questions ! index, category = stage, difficulty = difficulty_medium,
      keyPoints = generalKeyPoints, userAnswer = answer_or_placeholder answers index,
      stageType = None\<rparr>"

definition settle ::
  "Services \<Rightarrow> string \<Rightarrow> string list \<Rightarrow> string list
     \<Rightarrow> thrown + IndividualEvaluationResponse \<Rightarrow> nat \<Rightarrow> thrown + IndividualEvaluationResponse" where
  \<comment> \<open>the callback of \<open>settledEvaluations.map\<close>; \<open>Inl\<close> when the synchronous call throws\<close>
  "settle svc stage questions answers result index =
     (case result of
        Inr v \<Rightarrow> Inr v
      | Inl reason \<Rightarrow>
          generateFallbackEvaluation svc (lastResortRequest stage questions answers index) (Some reason))"

fun collect :: "(thrown + 'a) list \<Rightarrow> thrown + 'a list" where
  \<comment> \<open>a \<open>map\<close> whose callback may throw: the first throw, in index order, ends it\<close>
  "collect [] = Inr []"
| "collect (r # rs) =
     (case r of
        Inl e \<Rightarrow> Inl e
      | Inr v \<Rightarrow> (case collect rs of Inl e \<Rightarrow> Inl e | Inr vs \<Rightarrow> Inr (v # vs)))"

definition dispatchEvaluations ::
  "Services \<Rightarrow> string \<Rightarrow> string list \<Rightarrow> string list \<Rightarrow> thrown + IndividualEvaluationResponse list" where
  \<comment> \<open>the first step of processEvaluation: the value of its \<open>individualEvaluations\<close>\<close>
  "dispatchEvaluations svc stage questions answers =
     collect (map_indexed (settle svc stage questions answers)
                (settledEvaluations svc stage questions answers))"

subsection \<open>processEvaluation and the POST handler\<close>

record AggregatedReport =
  evaluationId :: string
  stageInfo :: StageInfo
  individualEvaluations :: "IndividualEvaluationResponse list"
  overallSummary :: json
  timestamp :: string

definition type_error :: "World \<Rightarrow> thrown" where
  \<comment> \<open>the TypeError of reading \<open>overallSummary.overallLevel\<close> when the summary is \<open>null\<close>:
      an Error whose message is the engine's\<close>
  "type_error w = Error (nullReadMessage w)"

definition processing_failed :: "thrown \<Rightarrow> thrown" where
  \<comment> \<open>the error the outer \<open>catch\<close> of processEvaluation throws\<close>
  "processing_failed error = Error (processing_failed_prefix @ message_of error)"

definition report_id :: "World \<Rightarrow> string option \<Rightarrow> string" where
  \<comment> \<open>\<open>evaluationId || `eval_${Date.now()}`\<close>: \<open>undefined\<close> and the empty string are falsy\<close>
  "report_id w given =
     (case given of
        None \<Rightarrow> ''eval_'' @ show_nat (dateNow w)
      | Some i \<Rightarrow> if i = [] then ''eval_'' @ show_nat (dateNow w) else i)"

definition processEvaluation ::
  "World \<Rightarrow> Services \<Rightarrow> string \<Rightarrow> string list \<Rightarrow> string list \<Rightarrow> string \<Rightarrow> int \<Rightarrow> string option
     \<Rightarrow> thrown + AggregatedReport" where
  \<comment> \<open>\<open>Inl\<close> is the error the function throws. The statement that logs the finished report
      reads \<open>overallSummary.overallLevel\<close>, which throws a TypeError for \<open>null\<close>, inside
      the \<open>try\<close> block.\<close>
  "processEvaluation w svc stage questions answers title setIndex given =
     (case dispatchEvaluations svc stage questions answers of
        Inl error \<Rightarrow> Inl (processing_failed error)
      | Inr evaluations \<Rightarrow>
          (let info = \<lparr>StageInfo.stageType = stage, stageTitle = title,
                       questionSetIndex = setIndex, questionCount = length questions\<rparr>;
               result = fst (generateOverallSummary w evaluations info);
               aggregatedReport =
                 \<lparr>evaluationId = report_id w given, stageInfo = info,
                  individualEvaluations = evaluations, overallSummary = result,
                  timestamp = isoNow w\<rparr>
           in if result = JNull then Inl (processing_failed (type_error w))
              else Inr aggregatedReport))"

datatype reply_body =
    Processing string string string
  | Report AggregatedReport
  | Failure string string
  \<comment> \<open>\<open>{evaluationId, message, status}\<close>, the report, and \<open>{error, message}\<close>\<close>

record Reply =
  httpStatus :: nat
  replyBody :: reply_body

record Job =
  jobStage :: string
  jobQuestions :: "string list"
  jobAnswers :: "string list"
  jobTitle :: string
  jobSetIndex :: int
  jobEvaluationId :: string

definition new_evaluation_id :: "World \<Rightarrow> string" where
  \<comment> \<open>\<open>`eval_${Date.now()}_${Math.random().toString(36).substr(2, 9)}`\<close>\<close>
  "new_evaluation_id w =
     ''eval_'' @ show_nat (dateNow w) @ ''_'' @ take 9 (drop 2 (mathRandom36 w))"

definition POST ::
  "World \<Rightarrow> Services \<Rightarrow> string \<Rightarrow> string list \<Rightarrow> string list \<Rightarrow> string \<Rightarrow> int \<Rightarrow> bool
     \<Rightarrow> Reply \<times> Job option" where
  \<comment> \<open>the reply, and the callback handed to \<open>setTimeout\<close>, which has not run when the
      handler returns\<close>
  "POST w svc stage questions answers title setIndex async =
     (if async
      then (let i = new_evaluation_id w
            in (\<lparr>httpStatus = 200, replyBody = Processing i evaluation_started ''processing''\<rparr>,
                Some \<lparr>jobStage = stage, jobQuestions = questions, jobAnswers = answers,
                      jobTitle = title, jobSetIndex = setIndex, jobEvaluationId = i\<rparr>))
      else (case processEvaluation w svc stage questions answers title setIndex None of
              Inr result \<Rightarrow> (\<lparr>httpStatus = 200, replyBody = Report result\<rparr>, None)
            | Inl error \<Rightarrow>
                (\<lparr>httpStatus = 500, replyBody = Failure set_evaluation_failed (message_of error)\<rparr>,
                 None)))"

definition runJob :: "World \<Rightarrow> Services \<Rightarrow> Job \<Rightarrow> thrown + AggregatedReport" where
  \<comment> \<open>the timer callback, run in the world of its own time: the call of processEvaluation
      with the identifier of the reply\<close>
  "runJob w svc job =
     processEvaluation w svc (jobStage job) (jobQuestions job) (jobAnswers job) (jobTitle job)
       (jobSetIndex job) (Some (jobEvaluationId job))"

subsection \<open>Specification-level definitions and sample inputs\<close>

definition evaluation_of :: "string \<Rightarrow> bool \<Rightarrow> IndividualEvaluationResponse" where
  \<comment> \<open>a sample evaluation with the given performance level and validity\<close>
  "evaluation_of level valid =
     \<lparr>performanceLevel = level, summary = ''s'', strengths = [], improvements = [],
      preliminaryAnalysis = \<lparr>isValid = valid\<rparr>\<rparr>"

definition stage_one :: StageInfo where
  "stage_one = \<lparr>StageInfo.stageType = ''hr'', stageTitle = ''HR'', questionSetIndex = 0, questionCount = 3\<rparr>"

definition spec_ordinal :: "string \<Rightarrow> nat" where
  \<comment> \<open>the ordinal table of the specification: the lowest level is 1, the highest is 4\<close>
  "spec_ordinal level =
     (if level = level_assistant then 1
      else if level = level_screenwriter then 2
      else if level = level_producer then 3
      else if level = level_director then 4
      else 0)"

definition table_levels :: "string set" where
  \<comment> \<open>the four labels of the table\<close>
  "table_levels = {level_assistant, level_screenwriter, level_producer, level_director}"

definition inherited_sample :: "IndividualEvaluationResponse list" where
  \<comment> \<open>three director-level evaluations and one whose level is the name \<open>toString\<close>\<close>
  "inherited_sample =
     [evaluation_of level_director True, evaluation_of level_director True,
      evaluation_of level_director True, evaluation_of ''toString'' True]"

definition failing_evaluator :: "nat \<Rightarrow> EvaluationRequest \<Rightarrow> thrown + IndividualEvaluationResponse" where
  \<comment> \<open>an evaluator every call of which fails\<close>
  "failing_evaluator index request = Inl (Error ''timeout'')"

definition echo_fallback :: "EvaluationRequest \<Rightarrow> thrown option \<Rightarrow> thrown + IndividualEvaluationResponse" where
  \<comment> \<open>a synthesizer that always returns, and shows the question and the answer it was given\<close>
  "echo_fallback request reason =
     Inr \<lparr>performanceLevel = level_screenwriter, summary = question request @ ''/'' @ userAnswer request,
          strengths = [], improvements = [], preliminaryAnalysis = \<lparr>isValid = True\<rparr>\<rparr>"

definition late_fallback :: "EvaluationRequest \<Rightarrow> thrown option \<Rightarrow> thrown + IndividualEvaluationResponse" where
  \<comment> \<open>a synthesizer that throws unless it is given a reason, which it shows\<close>
  "late_fallback request reason =
     (case reason of
        None \<Rightarrow> Inl (Error ''fallback failed'')
      | Some r \<Rightarrow>
          Inr \<lparr>performanceLevel = level_assistant, summary = question request @ '': '' @ message_of r,
               strengths = [], improvements = [], preliminaryAnalysis = \<lparr>isValid = False\<rparr>\<rparr>)"

definition null_read_message_v8 :: string where
  \<comment> \<open>the message V8 gives the TypeError, with its two apostrophes\<close>
  "null_read_message_v8 =
     ''Cannot read properties of null (reading '' @ [CHR 0x27] @ ''overallLevel''
       @ [CHR 0x27] @ '')''"

definition offline_world :: World where
  \<comment> \<open>a world without the credential\<close>
  "offline_world =
     \<lparr>apiKey = None, fetch = (\<lambda>p. Rejected NonError), JSON_parse = (\<lambda>s. None),
      toText = (\<lambda>v. []), nullReadMessage = null_read_message_v8,
      dateNow = 1700, isoNow = ''2023-11-14T22:13:20.000Z'',
      mathRandom36 = ''0.4fzyo82mvyr''\<rparr>"

definition last_resort_returns :: "Services \<Rightarrow> string \<Rightarrow> string list \<Rightarrow> string list \<Rightarrow> bool" where
  \<comment> \<open>Modelled from the spec: the Fallback Evaluation Synthesizer (generateFallbackEvaluation of
      lib/ai-service) is not part of the sources. Section 4.1, step 3, requires of the
      last-resort call, which receives the failure reason, that it "is guaranteed to
      terminate with a valid structure": for every question and every reason it returns.\<close>
  "last_resort_returns svc stage questions answers =
     (\<forall>i<length questions. \<forall>reason. \<exists>v.
        generateFallbackEvaluation svc (lastResortRequest stage questions answers i) (Some reason)
          = Inr v)"

definition task_outcome ::
  "Services \<Rightarrow> string \<Rightarrow> string list \<Rightarrow> string list \<Rightarrow> nat \<Rightarrow> thrown + IndividualEvaluationResponse" where
  \<comment> \<open>what the two maps of the dispatcher compute for the index \<open>i\<close>\<close>
  "task_outcome svc stage questions answers i =
     settle svc stage questions answers (evaluationTask svc stage answers (questions ! i) i) i"

definition failing_services :: Services where
  "failing_services = \<lparr>evaluateAnswer = failing_evaluator, generateFallbackEvaluation = echo_fallback\<rparr>"

definition exhausted_services :: Services where
  "exhausted_services = \<lparr>evaluateAnswer = failing_evaluator, generateFallbackEvaluation = late_fallback\<rparr>"

definition echo_entry :: "string \<Rightarrow> string \<Rightarrow> IndividualEvaluationResponse" where
  "echo_entry q a =
     \<lparr>performanceLevel = level_screenwriter, summary = q @ ''/'' @ a,
      strengths = [], improvements = [], preliminaryAnalysis = \<lparr>isValid = True\<rparr>\<rparr>"

definition last_resort_entry :: "string \<Rightarrow> IndividualEvaluationResponse" where
  "last_resort_entry q =
     \<lparr>performanceLevel = level_assistant, summary = q @ '': fallback failed'',
      strengths = [], improvements = [], preliminaryAnalysis = \<lparr>isValid = False\<rparr>\<rparr>"

definition text_reply :: "string \<Rightarrow> json" where
  \<comment> \<open>a chat completion whose first choice has the given content\<close>
  "text_reply content =
     JObj [(''choices'', JArr [JObj [(''message'', JObj [(''content'', JStr content)])]])]"

definition sample_parse :: "string \<Rightarrow> json option" where
  \<comment> \<open>\<open>JSON.parse\<close> on the texts of the samples: three bodies, named by what their content is,
      and the text \<open>null\<close>; every other text of the samples is not JSON\<close>
  "sample_parse s =
     (if s = ''EMPTY'' then Some (text_reply [])
      else if s = ''PROSE'' then Some (text_reply ''not json'')
      else if s = ''NULL'' then Some (text_reply ''null'')
      else if s = ''null'' then Some JNull
      else None)"

definition online_world :: "fetch_result \<Rightarrow> World" where
  \<comment> \<open>a world with the credential, whose aggregation service answers with the given reply\<close>
  "online_world reply =
     \<lparr>apiKey = Some ''sk-1'', fetch = (\<lambda>p. reply), JSON_parse = sample_parse,
      toText = (\<lambda>v. []), nullReadMessage = null_read_message_v8,
      dateNow = 1705, isoNow = ''2023-11-14T22:13:25.000Z'',
      mathRandom36 = ''0.9k2''\<rparr>"

definition sample_evaluations :: "IndividualEvaluationResponse list" where
  "sample_evaluations = [evaluation_of level_director True, evaluation_of level_producer True]"

definition null_world :: World where
  \<comment> \<open>the aggregation service replies with the content \<open>null\<close>\<close>
  "null_world = online_world (Response True 200 (Some ''NULL''))"

subsection \<open>Properties\<close>

lemmas level_defs = level_unassessable_def level_assistant_def level_screenwriter_def
  level_producer_def level_director_def level_professional_def level_senior_def level_chief_def

lemma tiers_distinct:
  "distinct [level_chief, level_senior, level_professional, level_assistant]"
  by (simp add: level_defs)

lemma overallLevel_fallback:
  "overallLevel (fst (generateFallbackSummary es si)) =
     (if validEvaluations es = [] then level_assistant
      else overallLevel_of (score_div (totalScore (validEvaluations es)) (length (validEvaluations es))))"
  by (simp add: generateFallbackSummary_def Let_def)

lemma avgScore_fallback:
  "avgScore (snd (generateFallbackSummary es si)) =
     (if validEvaluations es = [] then Fin 0
      else score_div (totalScore (validEvaluations es)) (length (validEvaluations es)))"
  by (simp add: generateFallbackSummary_def Let_def)

lemma totalScore_levels:
  "totalScore valid =
     foldl (\<lambda>sum level. add_score sum (levelScores level)) (Number 0) (map performanceLevel valid)"
  by (simp add: totalScore_def foldl_map)

text \<open>
  Claim C4. Fallback scoring maps the average ordinal score of the retained evaluations
  to the overall level by three inclusive thresholds: an average of at least 3.5 gives
  the top level, at least 2.5 the second, at least 1.5 the third, and anything lower
  the bottom level. The four levels are distinct, and the level is a function of the
  sequence of retained performance levels alone: two inputs whose retained levels agree
  get the same overall level. The thresholds are stated on the exact quotient of the
  total score by the number of retained evaluations; comparing the double the code
  computes is comparing that quotient (see \<open>js_ge\<close>). The witness is an average of
  exactly 3.5.
\<close>

theorem fallback_tier_thresholds:
  "(validEvaluations es \<noteq> [] \<and> totalScore (validEvaluations es) = Number t \<longrightarrow>
      overallLevel (fst (generateFallbackSummary es si)) =
        (let avg = rat_of_nat t / rat_of_nat (length (validEvaluations es))
         in if avg \<ge> 7 / 2 then level_chief
            else if avg \<ge> 5 / 2 then level_senior
            else if avg \<ge> 3 / 2 then level_professional
            else level_assistant))
   \<and> (map performanceLevel (validEvaluations es') = map performanceLevel (validEvaluations es) \<longrightarrow>
        overallLevel (fst (generateFallbackSummary es' si')) =
        overallLevel (fst (generateFallbackSummary es si)))
   \<and> distinct [level_chief, level_senior, level_professional, level_assistant]"
proof -
  let ?v = "validEvaluations es"
  have a: "validEvaluations es \<noteq> [] \<and> totalScore ?v = Number t \<longrightarrow>
      overallLevel (fst (generateFallbackSummary es si)) =
        (let avg = rat_of_nat t / rat_of_nat (length ?v)
         in if avg \<ge> 7 / 2 then level_chief
            else if avg \<ge> 5 / 2 then level_senior
            else if avg \<ge> 3 / 2 then level_professional
            else level_assistant)"
    by (simp add: overallLevel_fallback overallLevel_of_def js_div_def Let_def)
  have b: "map performanceLevel (validEvaluations es') = map performanceLevel ?v \<longrightarrow>
        overallLevel (fst (generateFallbackSummary es' si')) =
        overallLevel (fst (generateFallbackSummary es si))"
  proof
    assume eq: "map performanceLevel (validEvaluations es') = map performanceLevel ?v"
    have t: "totalScore (validEvaluations es') = totalScore ?v"
      using eq by (simp add: totalScore_levels)
    have l: "length (validEvaluations es') = length ?v"
      using eq by (metis length_map)
    have n: "(validEvaluations es' = []) = (?v = [])"
      using l by auto
    show "overallLevel (fst (generateFallbackSummary es' si')) =
        overallLevel (fst (generateFallbackSummary es si))"
      by (simp add: overallLevel_fallback t l n)
  qed
  from a b tiers_distinct show ?thesis by blast
qed

theorem fallback_tier_thresholds_witness:
  "validEvaluations [evaluation_of level_director True, evaluation_of level_producer True] \<noteq> []
   \<and> totalScore (validEvaluations
         [evaluation_of level_director True, evaluation_of level_producer True]) = Number 7
   \<and> overallLevel (fst (generateFallbackSummary
         [evaluation_of level_director True, evaluation_of level_producer True] stage_one))
       = level_chief"
proof -
  let ?es = "[evaluation_of level_director True, evaluation_of level_producer True]"
  have v: "validEvaluations ?es = ?es"
    by (simp add: validEvaluations_def evaluation_of_def level_defs)
  have t: "totalScore ?es = Number 7"
    by (simp add: totalScore_def evaluation_of_def levelScores_def level_defs)
  from fallback_tier_thresholds [of ?es 7 stage_one] v t show ?thesis
    by (simp add: Let_def)
qed

text \<open>
  Claim C5. When no evaluation is retained, the overall level is the bottom level, and
  no average is computed: the logged \<open>avgScore\<close> is still its initial value 0 and the
  count is 0, whereas the quotient of the empty total by the empty count is \<open>NaN\<close>.
\<close>

theorem fallback_no_valid_evaluations:
  "validEvaluations es = [] \<Longrightarrow>
     overallLevel (fst (generateFallbackSummary es si)) = level_assistant
     \<and> avgScore (snd (generateFallbackSummary es si)) = Fin 0
     \<and> validCount (snd (generateFallbackSummary es si)) = 0
     \<and> score_div (totalScore (validEvaluations es)) (length (validEvaluations es)) = NaN"
  by (simp add: generateFallbackSummary_def Let_def totalScore_def js_div_def)

theorem fallback_no_valid_evaluations_witness:
  "validEvaluations [evaluation_of level_director False, evaluation_of level_unassessable True] = []
   \<and> overallLevel (fst (generateFallbackSummary
        [evaluation_of level_director False, evaluation_of level_unassessable True] stage_one))
       = level_assistant
   \<and> avgScore (snd (generateFallbackSummary
        [evaluation_of level_director False, evaluation_of level_unassessable True] stage_one))
       = Fin 0"
proof -
  let ?es = "[evaluation_of level_director False, evaluation_of level_unassessable True]"
  have v: "validEvaluations ?es = []"
    by (simp add: validEvaluations_def evaluation_of_def)
  from fallback_no_valid_evaluations [OF v, of stage_one] v show ?thesis
    by simp
qed

lemma levelScores_table:
  "level \<in> table_levels \<Longrightarrow> levelScores level = Own (spec_ordinal level) \<and> 0 < spec_ordinal level"
  by (auto simp: table_levels_def levelScores_def spec_ordinal_def)

lemma foldl_table_levels:
  "set levels \<subseteq> table_levels \<Longrightarrow>
     foldl (\<lambda>sum level. add_score sum (levelScores level)) (Number s) levels
       = Number (s + sum_list (map spec_ordinal levels))"
proof (induction levels arbitrary: s)
  case Nil
  then show ?case by simp
next
  case (Cons l ls)
  from Cons.prems have l: "l \<in> table_levels" and ls: "set ls \<subseteq> table_levels" by auto
  from levelScores_table [OF l] have "add_score (Number s) (levelScores l) = Number (s + spec_ordinal l)"
    by simp
  with Cons.IH [OF ls] show ?case by (simp add: add.assoc)
qed

text \<open>
  Claim C7. Fallback scoring retains exactly the evaluations that are valid and whose
  performance level is not the unassessable sentinel, in their order; the score table
  gives 1, 2, 3 and 4 to its four levels, from the lowest to the highest; and when all
  retained levels are levels of the table, the total is the sum of their ordinals
  (\<open>spec_ordinal\<close>, the table as the specification words it) and the average the code
  computes and logs is the double nearest to that sum divided by their number. In the
  witness the sum is 10 and the number 3: the average is the double nearest to
  \<open>10 / 3\<close>, not \<open>10 / 3\<close>.
\<close>

theorem fallback_filter_and_table:
  "validEvaluations es =
     filter (\<lambda>e. isValid (preliminaryAnalysis e) \<and> performanceLevel e \<noteq> level_unassessable) es
   \<and> levelScores level_assistant = Own 1 \<and> levelScores level_screenwriter = Own 2
   \<and> levelScores level_producer = Own 3 \<and> levelScores level_director = Own 4
   \<and> (validEvaluations es \<noteq> [] \<and> performanceLevel ` set (validEvaluations es) \<subseteq> table_levels \<longrightarrow>
        totalScore (validEvaluations es) =
          Number (sum_list (map (spec_ordinal \<circ> performanceLevel) (validEvaluations es)))
      \<and> avgScore (snd (generateFallbackSummary es si)) =
          Nearest (rat_of_nat (sum_list (map (spec_ordinal \<circ> performanceLevel) (validEvaluations es)))
                   / rat_of_nat (length (validEvaluations es))))"
proof -
  have table: "levelScores level_assistant = Own 1 \<and> levelScores level_screenwriter = Own 2
     \<and> levelScores level_producer = Own 3 \<and> levelScores level_director = Own 4"
    by (simp add: levelScores_def level_defs)
  have avg: "validEvaluations es \<noteq> [] \<and> performanceLevel ` set (validEvaluations es) \<subseteq> table_levels \<longrightarrow>
        totalScore (validEvaluations es) =
          Number (sum_list (map (spec_ordinal \<circ> performanceLevel) (validEvaluations es)))
      \<and> avgScore (snd (generateFallbackSummary es si)) =
          Nearest (rat_of_nat (sum_list (map (spec_ordinal \<circ> performanceLevel) (validEvaluations es)))
                   / rat_of_nat (length (validEvaluations es)))"
  proof
    assume h: "validEvaluations es \<noteq> [] \<and> performanceLevel ` set (validEvaluations es) \<subseteq> table_levels"
    then have "set (map performanceLevel (validEvaluations es)) \<subseteq> table_levels" by simp
    from foldl_table_levels [OF this, of 0]
    have t: "totalScore (validEvaluations es)
            = Number (sum_list (map (spec_ordinal \<circ> performanceLevel) (validEvaluations es)))"
      by (simp add: totalScore_levels)
    with h have "avgScore (snd (generateFallbackSummary es si)) =
          Nearest (rat_of_nat (sum_list (map (spec_ordinal \<circ> performanceLevel) (validEvaluations es)))
                   / rat_of_nat (length (validEvaluations es)))"
      by (simp add: avgScore_fallback js_div_def)
    with t show "totalScore (validEvaluations es) =
          Number (sum_list (map (spec_ordinal \<circ> performanceLevel) (validEvaluations es)))
      \<and> avgScore (snd (generateFallbackSummary es si)) =
          Nearest (rat_of_nat (sum_list (map (spec_ordinal \<circ> performanceLevel) (validEvaluations es)))
                   / rat_of_nat (length (validEvaluations es)))"
      by simp
  qed
  from table avg show ?thesis by (simp add: validEvaluations_def)
qed

theorem fallback_filter_and_table_witness:
  "validEvaluations [evaluation_of level_producer True, evaluation_of level_assistant False,
                     evaluation_of level_unassessable True, evaluation_of level_producer True,
                     evaluation_of level_director True]
     = [evaluation_of level_producer True, evaluation_of level_producer True,
        evaluation_of level_director True]
   \<and> totalScore (validEvaluations
        [evaluation_of level_producer True, evaluation_of level_assistant False,
         evaluation_of level_unassessable True, evaluation_of level_producer True,
         evaluation_of level_director True]) = Number 10
   \<and> avgScore (snd (generateFallbackSummary
        [evaluation_of level_producer True, evaluation_of level_assistant False,
         evaluation_of level_unassessable True, evaluation_of level_producer True,
         evaluation_of level_director True] stage_one))
       = Nearest (10 / 3)
   \<and> Nearest (10 / 3) \<noteq> Fin (10 / 3)"
proof -
  let ?es = "[evaluation_of level_producer True, evaluation_of level_assistant False,
              evaluation_of level_unassessable True, evaluation_of level_producer True,
              evaluation_of level_director True]"
  have v: "validEvaluations ?es = [evaluation_of level_producer True,
      evaluation_of level_producer True, evaluation_of level_director True]"
    by (simp add: validEvaluations_def evaluation_of_def level_defs)
  have n: "validEvaluations ?es \<noteq> []"
    by (simp only: v) simp
  have s: "performanceLevel ` set (validEvaluations ?es) \<subseteq> table_levels"
    by (simp only: v) (simp add: table_levels_def evaluation_of_def)
  have o: "spec_ordinal level_director = 4 \<and> spec_ordinal level_producer = 3"
    by (simp add: spec_ordinal_def level_defs)
  from fallback_filter_and_table [of ?es stage_one] n s
  have r: "totalScore (validEvaluations ?es) =
          Number (sum_list (map (spec_ordinal \<circ> performanceLevel) (validEvaluations ?es)))
      \<and> avgScore (snd (generateFallbackSummary ?es stage_one)) =
          Nearest (rat_of_nat (sum_list (map (spec_ordinal \<circ> performanceLevel) (validEvaluations ?es)))
                   / rat_of_nat (length (validEvaluations ?es)))"
    by blast
  have sum: "sum_list (map (spec_ordinal \<circ> performanceLevel) (validEvaluations ?es)) = 10"
    by (simp only: v) (simp add: evaluation_of_def o)
  have len: "length (validEvaluations ?es) = 3"
    by (simp only: v) simp
  from r have "totalScore (validEvaluations ?es) = Number 10
      \<and> avgScore (snd (generateFallbackSummary ?es stage_one)) = Nearest (10 / 3)"
    by (simp only: sum len) simp
  with v show ?thesis by simp
qed

text \<open>
  Claim C9. The claim is that every retained level outside the table contributes the
  score 1. The level \<open>toString\<close> is outside the table, and \<open>levelScores["toString"]\<close>
  is the function the object literal inherits, which is truthy: the sum becomes a
  string, the average \<open>NaN\<close> and the overall level the bottom one, where the score 1
  for that evaluation gives the average 13 / 4 and the second level.
\<close>

theorem inherited_level_not_scored_one:
  "validEvaluations inherited_sample = inherited_sample
   \<and> ''toString'' \<notin> table_levels
   \<and> totalScore (validEvaluations inherited_sample) = Text
   \<and> avgScore (snd (generateFallbackSummary inherited_sample stage_one)) = NaN
   \<and> overallLevel (fst (generateFallbackSummary inherited_sample stage_one)) = level_assistant
   \<and> overallLevel_of (js_div (4 + 4 + 4 + 1) 4) = level_senior
   \<and> level_senior \<noteq> level_assistant"
proof -
  have v: "validEvaluations inherited_sample = inherited_sample"
    by (simp add: validEvaluations_def inherited_sample_def evaluation_of_def level_defs)
  have t: "totalScore inherited_sample = Text"
    by (simp add: totalScore_def inherited_sample_def evaluation_of_def levelScores_def
        level_defs object_prototype_names_def)
  have n: "inherited_sample \<noteq> []" by (simp add: inherited_sample_def)
  have a: "avgScore (snd (generateFallbackSummary inherited_sample stage_one)) = NaN"
    by (simp add: avgScore_fallback v t n)
  have l: "overallLevel (fst (generateFallbackSummary inherited_sample stage_one)) = level_assistant"
    by (simp add: overallLevel_fallback v t n overallLevel_of_def)
  have c: "overallLevel_of (js_div (4 + 4 + 4 + 1) 4) = level_senior"
    by (simp add: overallLevel_of_def js_div_def)
  have d: "level_senior \<noteq> level_assistant" by (simp add: level_defs)
  have e: "''toString'' \<notin> table_levels" by (simp add: table_levels_def level_defs)
  from v t a l c d e show ?thesis by simp
qed

text \<open>
  A retained level that is neither a level of the table nor the name of a
  property inherited from \<open>Object.prototype\<close> adds 1 to the total, and an evaluation
  with such a level that is valid and not the unassessable sentinel is retained.
\<close>

theorem unknown_level_scores_one:
  "level \<notin> table_levels \<Longrightarrow> level \<notin> set object_prototype_names \<Longrightarrow>
     add_score (Number s) (levelScores level) = Number (s + 1)
     \<and> (level \<noteq> level_unassessable \<and> isValid (preliminaryAnalysis e) \<and> performanceLevel e = level
          \<and> e \<in> set es \<longrightarrow> e \<in> set (validEvaluations es))"
  by (auto simp: table_levels_def levelScores_def validEvaluations_def)

theorem unknown_level_scores_one_witness:
  "level_professional \<notin> table_levels \<and> level_professional \<notin> set object_prototype_names
   \<and> add_score (Number 4) (levelScores level_professional) = Number 5
   \<and> evaluation_of level_professional True
       \<in> set (validEvaluations [evaluation_of level_director True, evaluation_of level_professional True])"
proof -
  have a: "level_professional \<notin> table_levels"
    by (simp add: table_levels_def level_defs)
  have b: "level_professional \<notin> set object_prototype_names"
    by (simp add: object_prototype_names_def level_defs)
  have c: "level_professional \<noteq> level_unassessable" by (simp add: level_defs)
  from unknown_level_scores_one [OF a b, of 4 "evaluation_of level_professional True"
      "[evaluation_of level_director True, evaluation_of level_professional True]"] a b c
  show ?thesis by (simp add: evaluation_of_def)
qed

lemma map_indexed_length [simp]: "length (map_indexed f xs) = length xs"
  by (simp add: map_indexed_def)

lemma map_indexed_nth [simp]: "i < length xs \<Longrightarrow> map_indexed f xs ! i = f (xs ! i) i"
  by (simp add: map_indexed_def nth_enumerate_eq)

lemma collect_returns:
  "\<forall>i<length rs. \<exists>v. rs ! i = Inr v \<Longrightarrow>
     \<exists>vs. collect rs = Inr vs \<and> length vs = length rs \<and> (\<forall>i<length rs. rs ! i = Inr (vs ! i))"
proof (induction rs)
  case Nil
  then show ?case by simp
next
  case (Cons r rs)
  from Cons.prems have "\<exists>v. (r # rs) ! 0 = Inr v" by blast
  then obtain v where v: "r = Inr v" by auto
  have "\<forall>i<length rs. \<exists>v. rs ! i = Inr v"
  proof (intro allI impI)
    fix i assume "i < length rs"
    then have "Suc i < length (r # rs)" by simp
    with Cons.prems have "\<exists>v. (r # rs) ! Suc i = Inr v" by blast
    then show "\<exists>v. rs ! i = Inr v" by simp
  qed
  from Cons.IH [OF this] obtain vs where vs: "collect rs = Inr vs" "length vs = length rs"
    "\<forall>i<length rs. rs ! i = Inr (vs ! i)" by blast
  have "\<forall>i<length (r # rs). (r # rs) ! i = Inr ((v # vs) ! i)"
  proof (intro allI impI)
    fix i assume "i < length (r # rs)"
    then show "(r # rs) ! i = Inr ((v # vs) ! i)"
      using v vs(3) by (cases i) auto
  qed
  with v vs show ?case by simp
qed

lemma collect_Inr_nth:
  "collect rs = Inr vs \<Longrightarrow> length vs = length rs \<and> (\<forall>i<length rs. rs ! i = Inr (vs ! i))"
proof (induction rs arbitrary: vs)
  case Nil
  then show ?case by simp
next
  case (Cons r rs)
  from Cons.prems obtain v ws where r: "r = Inr v" and ws: "collect rs = Inr ws" and vs: "vs = v # ws"
    by (auto split: sum.splits)
  from Cons.IH [OF ws] have ih: "length ws = length rs" "\<forall>i<length rs. rs ! i = Inr (ws ! i)" by auto
  have "\<forall>i<length (r # rs). (r # rs) ! i = Inr (vs ! i)"
  proof (intro allI impI)
    fix i assume "i < length (r # rs)"
    then show "(r # rs) ! i = Inr (vs ! i)"
      using r vs ih(2) by (cases i) auto
  qed
  with ih vs show ?case by simp
qed

lemma dispatch_nth:
  "i < length questions \<Longrightarrow>
     map_indexed (settle svc stage questions answers) (settledEvaluations svc stage questions answers) ! i
       = task_outcome svc stage questions answers i"
  by (simp add: settledEvaluations_def task_outcome_def)

lemma dispatch_length:
  "length (map_indexed (settle svc stage questions answers)
            (settledEvaluations svc stage questions answers)) = length questions"
  by (simp add: settledEvaluations_def)

lemma task_outcome_returns:
  assumes "\<forall>reason. \<exists>v. generateFallbackEvaluation svc (lastResortRequest stage questions answers i) (Some reason) = Inr v"
  shows "\<exists>v. task_outcome svc stage questions answers i = Inr v"
  using assms by (auto simp: task_outcome_def settle_def split: sum.splits)

lemma dispatch_returns:
  assumes "last_resort_returns svc stage questions answers"
  shows "\<exists>evs. dispatchEvaluations svc stage questions answers = Inr evs
           \<and> length evs = length questions
           \<and> (\<forall>i<length questions. task_outcome svc stage questions answers i = Inr (evs ! i))"
proof -
  let ?rs = "map_indexed (settle svc stage questions answers) (settledEvaluations svc stage questions answers)"
  have len: "length ?rs = length questions" by (rule dispatch_length)
  have "\<forall>i<length ?rs. \<exists>v. ?rs ! i = Inr v"
  proof (intro allI impI)
    fix i assume "i < length ?rs"
    with len have i: "i < length questions" by simp
    with assms have "\<forall>reason. \<exists>v.
      generateFallbackEvaluation svc (lastResortRequest stage questions answers i) (Some reason) = Inr v"
      by (simp add: last_resort_returns_def)
    from task_outcome_returns [OF this] show "\<exists>v. ?rs ! i = Inr v"
      by (simp only: dispatch_nth [OF i])
  qed
  from collect_returns [OF this] obtain vs where vs: "collect ?rs = Inr vs" "length vs = length ?rs"
    "\<forall>i<length ?rs. ?rs ! i = Inr (vs ! i)" by blast
  have "\<forall>i<length questions. task_outcome svc stage questions answers i = Inr (vs ! i)"
  proof (intro allI impI)
    fix i assume i: "i < length questions"
    with vs(3) len have "?rs ! i = Inr (vs ! i)" by simp
    then show "task_outcome svc stage questions answers i = Inr (vs ! i)"
      by (simp only: dispatch_nth [OF i])
  qed
  with vs(1,2) len show ?thesis
    by (simp only: dispatchEvaluations_def) blast
qed

lemma processEvaluation_of_dispatch:
  "dispatchEvaluations svc stage questions answers = Inr evs \<Longrightarrow>
     processEvaluation w svc stage questions answers title setIndex given =
       (if fst (generateOverallSummary w evs
                 \<lparr>StageInfo.stageType = stage, stageTitle = title, questionSetIndex = setIndex,
                  questionCount = length questions\<rparr>) = JNull
        then Inl (processing_failed (type_error w))
        else Inr \<lparr>evaluationId = report_id w given,
                  stageInfo = \<lparr>StageInfo.stageType = stage, stageTitle = title,
                               questionSetIndex = setIndex, questionCount = length questions\<rparr>,
                  individualEvaluations = evs,
                  overallSummary = fst (generateOverallSummary w evs
                     \<lparr>StageInfo.stageType = stage, stageTitle = title, questionSetIndex = setIndex,
                      questionCount = length questions\<rparr>),
                  timestamp = isoNow w\<rparr>)"
  by (simp add: processEvaluation_def Let_def)

lemma dispatch_Inr:
  assumes "dispatchEvaluations svc stage questions answers = Inr evs"
  shows "length evs = length questions
           \<and> (\<forall>i<length questions. task_outcome svc stage questions answers i = Inr (evs ! i))"
proof -
  let ?rs = "map_indexed (settle svc stage questions answers) (settledEvaluations svc stage questions answers)"
  have len: "length ?rs = length questions" by (rule dispatch_length)
  from assms have "collect ?rs = Inr evs" by (simp only: dispatchEvaluations_def)
  from collect_Inr_nth [OF this] have l: "length evs = length ?rs"
    and n: "\<forall>i<length ?rs. ?rs ! i = Inr (evs ! i)" by auto
  have "\<forall>i<length questions. task_outcome svc stage questions answers i = Inr (evs ! i)"
  proof (intro allI impI)
    fix i assume i: "i < length questions"
    with n len have "?rs ! i = Inr (evs ! i)" by simp
    then show "task_outcome svc stage questions answers i = Inr (evs ! i)"
      by (simp only: dispatch_nth [OF i])
  qed
  with l len show ?thesis by simp
qed

lemma processEvaluation_Inr:
  assumes "processEvaluation w svc stage questions answers title setIndex given = Inr report"
  shows "dispatchEvaluations svc stage questions answers = Inr (individualEvaluations report)
           \<and> questionCount (stageInfo report) = length questions"
  using assms by (auto simp: processEvaluation_def Let_def split: sum.splits if_splits)

text \<open>
  For every list of questions, every list of answers and every behaviour of the
  evaluator: every report processEvaluation returns has exactly one evaluation per
  question, the one at index \<open>i\<close> being the settled outcome of the task built from
  question \<open>i\<close>, and records the number of questions. The dispatcher returns such a
  sequence whenever the last-resort call of the synthesizer returns (the synthesizer is
  a parameter, and \<open>last_resort_returns\<close> is its contract), and processEvaluation then
  returns the report that carries it unless the summary is \<open>null\<close>. In the witness
  every call of the evaluator fails.
\<close>

theorem report_has_one_entry_per_question:
  "(\<forall>report. processEvaluation w svc stage questions answers title setIndex given = Inr report \<longrightarrow>
        length (individualEvaluations report) = length questions
      \<and> questionCount (stageInfo report) = length questions
      \<and> (\<forall>i<length questions.
            settle svc stage questions answers
              (evaluationTask svc stage answers (questions ! i) i) i
              = Inr (individualEvaluations report ! i)))
   \<and> (last_resort_returns svc stage questions answers \<longrightarrow>
       (\<exists>evs. dispatchEvaluations svc stage questions answers = Inr evs
           \<and> length evs = length questions
           \<and> (fst (generateOverallSummary w evs
                     \<lparr>StageInfo.stageType = stage, stageTitle = title, questionSetIndex = setIndex,
                      questionCount = length questions\<rparr>) \<noteq> JNull \<longrightarrow>
                (\<exists>report. processEvaluation w svc stage questions answers title setIndex given
                             = Inr report
                         \<and> individualEvaluations report = evs))))"
proof -
  have inv: "\<forall>report. processEvaluation w svc stage questions answers title setIndex given = Inr report \<longrightarrow>
        length (individualEvaluations report) = length questions
      \<and> questionCount (stageInfo report) = length questions
      \<and> (\<forall>i<length questions.
            settle svc stage questions answers
              (evaluationTask svc stage answers (questions ! i) i) i
              = Inr (individualEvaluations report ! i))"
  proof (intro allI impI)
    fix report
    assume "processEvaluation w svc stage questions answers title setIndex given = Inr report"
    from processEvaluation_Inr [OF this]
    have d: "dispatchEvaluations svc stage questions answers = Inr (individualEvaluations report)"
      and q: "questionCount (stageInfo report) = length questions" by auto
    from dispatch_Inr [OF d] q
    show "length (individualEvaluations report) = length questions
      \<and> questionCount (stageInfo report) = length questions
      \<and> (\<forall>i<length questions.
            settle svc stage questions answers
              (evaluationTask svc stage answers (questions ! i) i) i
              = Inr (individualEvaluations report ! i))"
      by (simp add: task_outcome_def)
  qed
  have prog: "last_resort_returns svc stage questions answers \<longrightarrow>
       (\<exists>evs. dispatchEvaluations svc stage questions answers = Inr evs
           \<and> length evs = length questions
           \<and> (fst (generateOverallSummary w evs
                     \<lparr>StageInfo.stageType = stage, stageTitle = title, questionSetIndex = setIndex,
                      questionCount = length questions\<rparr>) \<noteq> JNull \<longrightarrow>
                (\<exists>report. processEvaluation w svc stage questions answers title setIndex given
                             = Inr report
                         \<and> individualEvaluations report = evs)))"
  proof
    assume h: "last_resort_returns svc stage questions answers"
    from dispatch_returns [OF h] obtain evs where
      d: "dispatchEvaluations svc stage questions answers = Inr evs" and
      l: "length evs = length questions"
      by blast
    have r: "fst (generateOverallSummary w evs
                     \<lparr>StageInfo.stageType = stage, stageTitle = title, questionSetIndex = setIndex,
                      questionCount = length questions\<rparr>) \<noteq> JNull \<longrightarrow>
                (\<exists>report. processEvaluation w svc stage questions answers title setIndex given
                             = Inr report
                         \<and> individualEvaluations report = evs)"
      by (simp add: processEvaluation_of_dispatch [OF d])
    from d l r show "\<exists>evs. dispatchEvaluations svc stage questions answers = Inr evs
           \<and> length evs = length questions
           \<and> (fst (generateOverallSummary w evs
                     \<lparr>StageInfo.stageType = stage, stageTitle = title, questionSetIndex = setIndex,
                      questionCount = length questions\<rparr>) \<noteq> JNull \<longrightarrow>
                (\<exists>report. processEvaluation w svc stage questions answers title setIndex given
                             = Inr report
                         \<and> individualEvaluations report = evs))"
      by blast
  qed
  from inv prog show ?thesis by blast
qed

lemma failing_dispatch:
  "dispatchEvaluations failing_services ''hr'' [''q1'', ''q2'', ''q3''] [''a1'']
     = Inr [echo_entry ''q1'' ''a1'', echo_entry ''q2'' unanswered, echo_entry ''q3'' unanswered]"
  by (simp add: dispatchEvaluations_def settledEvaluations_def map_indexed_def settle_def
      evaluationTask_def requestData_def answer_or_placeholder_def failing_services_def
      failing_evaluator_def echo_fallback_def echo_entry_def enumerate_eq_zip upt_rec)

theorem report_has_one_entry_per_question_witness:
  "last_resort_returns failing_services ''hr'' [''q1'', ''q2'', ''q3''] [''a1'']
   \<and> (\<forall>i. \<forall>request. \<exists>e. evaluateAnswer failing_services i request = Inl e)
   \<and> (\<exists>report. processEvaluation offline_world failing_services ''hr'' [''q1'', ''q2'', ''q3'']
                   [''a1''] ''HR'' 0 None = Inr report
         \<and> length (individualEvaluations report) = 3
         \<and> questionCount (stageInfo report) = 3
         \<and> individualEvaluations report =
             [echo_entry ''q1'' ''a1'', echo_entry ''q2'' unanswered, echo_entry ''q3'' unanswered])"
proof -
  have g: "\<forall>request reason. \<exists>v.
       generateFallbackEvaluation failing_services request (Some reason) = Inr v"
    by (simp add: failing_services_def echo_fallback_def)
  then have h: "last_resort_returns failing_services ''hr'' [''q1'', ''q2'', ''q3''] [''a1'']"
    by (simp add: last_resort_returns_def)
  have f: "\<forall>i. \<forall>request. \<exists>e. evaluateAnswer failing_services i request = Inl e"
    by (simp add: failing_services_def failing_evaluator_def)
  have k: "apiKey offline_world = None" by (simp add: offline_world_def)
  note inst = report_has_one_entry_per_question [of offline_world failing_services "''hr''"
      "[''q1'', ''q2'', ''q3'']" "[''a1'']" "''HR''" 0 None]
  from inst h obtain evs where
    d: "dispatchEvaluations failing_services ''hr'' [''q1'', ''q2'', ''q3''] [''a1''] = Inr evs" and
    r: "fst (generateOverallSummary offline_world evs
              \<lparr>StageInfo.stageType = ''hr'', stageTitle = ''HR'', questionSetIndex = 0,
               questionCount = length [''q1'', ''q2'', ''q3'']\<rparr>) \<noteq> JNull \<longrightarrow>
         (\<exists>report. processEvaluation offline_world failing_services ''hr'' [''q1'', ''q2'', ''q3'']
                   [''a1''] ''HR'' 0 None = Inr report \<and> individualEvaluations report = evs)"
    by blast
  from d have evs: "evs = [echo_entry ''q1'' ''a1'', echo_entry ''q2'' unanswered,
      echo_entry ''q3'' unanswered]"
    by (simp add: failing_dispatch)
  have "fst (generateOverallSummary offline_world evs
              \<lparr>StageInfo.stageType = ''hr'', stageTitle = ''HR'', questionSetIndex = 0,
               questionCount = length [''q1'', ''q2'', ''q3'']\<rparr>) \<noteq> JNull"
    by (simp add: generateOverallSummary_def k fallback_object_def)
  with r evs obtain report where
    p: "processEvaluation offline_world failing_services ''hr''
      [''q1'', ''q2'', ''q3''] [''a1''] ''HR'' 0 None = Inr report" and
    e: "individualEvaluations report =
             [echo_entry ''q1'' ''a1'', echo_entry ''q2'' unanswered, echo_entry ''q3'' unanswered]"
    by blast
  from inst p have "length (individualEvaluations report) = length [''q1'', ''q2'', ''q3'']
      \<and> questionCount (stageInfo report) = length [''q1'', ''q2'', ''q3'']"
    by blast
  with p e h f show ?thesis by auto
qed

lemma task_outcome_tiers:
  "task_outcome svc stage questions answers i = Inr v \<Longrightarrow>
     (case evaluateAnswer svc i (requestData stage answers (questions ! i) i) of
        Inr result \<Rightarrow> v = result
      | Inl error \<Rightarrow>
          (case generateFallbackEvaluation svc (requestData stage answers (questions ! i) i) None of
             Inr substitute \<Rightarrow> v = substitute
           | Inl reason \<Rightarrow>
               generateFallbackEvaluation svc (lastResortRequest stage questions answers i)
                 (Some reason) = Inr v))"
  by (auto simp: task_outcome_def settle_def evaluationTask_def Let_def split: sum.splits)

text \<open>
  Claim C2. At every index, the entry is the evaluator's result when the evaluator
  returns; when it fails, the result of the synthesizer called with the same request and
  no reason; and when that call fails too, the result of the synthesizer called with the
  rebuilt request and the reason of that failure. The dispatcher returns (it does not
  throw) whenever the last-resort call returns, which is the contract of the synthesizer
  (\<open>last_resort_returns\<close>). In the witness the evaluator and the first synthesizer call
  fail at every index.
\<close>

theorem task_failure_is_absorbed:
  assumes "last_resort_returns svc stage questions answers"
  shows "\<exists>evs. dispatchEvaluations svc stage questions answers = Inr evs
           \<and> length evs = length questions
           \<and> (\<forall>i<length questions.
                 (case evaluateAnswer svc i (requestData stage answers (questions ! i) i) of
                    Inr result \<Rightarrow> evs ! i = result
                  | Inl error \<Rightarrow>
                      (case generateFallbackEvaluation svc
                              (requestData stage answers (questions ! i) i) None of
                         Inr substitute \<Rightarrow> evs ! i = substitute
                       | Inl reason \<Rightarrow>
                           generateFallbackEvaluation svc
                             (lastResortRequest stage questions answers i) (Some reason)
                             = Inr (evs ! i))))"
proof -
  from dispatch_returns [OF assms] obtain evs where
    d: "dispatchEvaluations svc stage questions answers = Inr evs" and
    l: "length evs = length questions" and
    e: "\<forall>i<length questions. task_outcome svc stage questions answers i = Inr (evs ! i)"
    by blast
  have "\<forall>i<length questions.
                 (case evaluateAnswer svc i (requestData stage answers (questions ! i) i) of
                    Inr result \<Rightarrow> evs ! i = result
                  | Inl error \<Rightarrow>
                      (case generateFallbackEvaluation svc
                              (requestData stage answers (questions ! i) i) None of
                         Inr substitute \<Rightarrow> evs ! i = substitute
                       | Inl reason \<Rightarrow>
                           generateFallbackEvaluation svc
                             (lastResortRequest stage questions answers i) (Some reason)
                             = Inr (evs ! i)))"
    using e task_outcome_tiers by blast
  with d l show ?thesis by blast
qed

theorem task_failure_is_absorbed_witness:
  "last_resort_returns exhausted_services ''hr'' [''q1'', ''q2''] [''a1'']
   \<and> (\<forall>i request. evaluateAnswer exhausted_services i request = Inl (Error ''timeout''))
   \<and> (\<forall>request. generateFallbackEvaluation exhausted_services request None
          = Inl (Error ''fallback failed''))
   \<and> dispatchEvaluations exhausted_services ''hr'' [''q1'', ''q2''] [''a1'']
       = Inr [last_resort_entry ''q1'', last_resort_entry ''q2'']"
proof -
  have g: "\<forall>request reason. \<exists>v.
       generateFallbackEvaluation exhausted_services request (Some reason) = Inr v"
    by (simp add: exhausted_services_def late_fallback_def)
  then have h: "last_resort_returns exhausted_services ''hr'' [''q1'', ''q2''] [''a1'']"
    by (simp add: last_resort_returns_def)
  have f: "\<forall>i request. evaluateAnswer exhausted_services i request = Inl (Error ''timeout'')"
    by (simp add: exhausted_services_def failing_evaluator_def)
  have n: "\<forall>request. generateFallbackEvaluation exhausted_services request None
          = Inl (Error ''fallback failed'')"
    by (simp add: exhausted_services_def late_fallback_def)
  from task_failure_is_absorbed [OF h] obtain evs where
    d: "dispatchEvaluations exhausted_services ''hr'' [''q1'', ''q2''] [''a1''] = Inr evs" and
    l: "length evs = length [''q1'', ''q2'']" and
    e: "\<forall>i<length [''q1'', ''q2''].
          (case evaluateAnswer exhausted_services i
                  (requestData ''hr'' [''a1''] ([''q1'', ''q2''] ! i) i) of
             Inr result \<Rightarrow> evs ! i = result
           | Inl error \<Rightarrow>
               (case generateFallbackEvaluation exhausted_services
                       (requestData ''hr'' [''a1''] ([''q1'', ''q2''] ! i) i) None of
                  Inr substitute \<Rightarrow> evs ! i = substitute
                | Inl reason \<Rightarrow>
                    generateFallbackEvaluation exhausted_services
                      (lastResortRequest ''hr'' [''q1'', ''q2''] [''a1''] i) (Some reason)
                      = Inr (evs ! i)))"
    by blast
  from e have "0 < length [''q1'', ''q2''] \<longrightarrow>
          (case evaluateAnswer exhausted_services 0
                  (requestData ''hr'' [''a1''] ([''q1'', ''q2''] ! 0) 0) of
             Inr result \<Rightarrow> evs ! 0 = result
           | Inl error \<Rightarrow>
               (case generateFallbackEvaluation exhausted_services
                       (requestData ''hr'' [''a1''] ([''q1'', ''q2''] ! 0) 0) None of
                  Inr substitute \<Rightarrow> evs ! 0 = substitute
                | Inl reason \<Rightarrow>
                    generateFallbackEvaluation exhausted_services
                      (lastResortRequest ''hr'' [''q1'', ''q2''] [''a1''] 0) (Some reason)
                      = Inr (evs ! 0)))"
    by blast
  then have e0: "evs ! 0 = last_resort_entry ''q1''"
    by (simp add: exhausted_services_def failing_evaluator_def late_fallback_def
        lastResortRequest_def last_resort_entry_def)
  from e have "1 < length [''q1'', ''q2''] \<longrightarrow>
          (case evaluateAnswer exhausted_services 1
                  (requestData ''hr'' [''a1''] ([''q1'', ''q2''] ! 1) 1) of
             Inr result \<Rightarrow> evs ! 1 = result
           | Inl error \<Rightarrow>
               (case generateFallbackEvaluation exhausted_services
                       (requestData ''hr'' [''a1''] ([''q1'', ''q2''] ! 1) 1) None of
                  Inr substitute \<Rightarrow> evs ! 1 = substitute
                | Inl reason \<Rightarrow>
                    generateFallbackEvaluation exhausted_services
                      (lastResortRequest ''hr'' [''q1'', ''q2''] [''a1''] 1) (Some reason)
                      = Inr (evs ! 1)))"
    by blast
  then have e1: "evs ! 1 = last_resort_entry ''q2''"
    by (simp add: exhausted_services_def failing_evaluator_def late_fallback_def
        lastResortRequest_def last_resort_entry_def)
  from l obtain a b where ab: "evs = [a, b]"
    by (cases evs; cases "tl evs"; cases "tl (tl evs)") auto
  with e0 e1 have "evs = [last_resort_entry ''q1'', last_resort_entry ''q2'']" by simp
  with d h f n show ?thesis by blast
qed

text \<open>
  Claim C10. The request's \<open>userAnswer\<close> is the placeholder whenever the answer at the
  index is missing or the empty string, in the task's request and in the rebuilt one,
  and it is the answer otherwise. An empty answer cannot be told from a missing one:
  appending an empty answer to the list changes no request and not the dispatcher's
  result.
\<close>

theorem empty_answer_is_unanswered:
  "((length answers \<le> index \<or> answers ! index = []) \<longrightarrow>
        userAnswer (requestData stage answers q index) = unanswered
      \<and> userAnswer (lastResortRequest stage questions answers index) = unanswered)
   \<and> ((index < length answers \<and> answers ! index \<noteq> []) \<longrightarrow>
        userAnswer (requestData stage answers q index) = answers ! index
      \<and> userAnswer (lastResortRequest stage questions answers index) = answers ! index)
   \<and> requestData stage (answers @ [[]]) q index = requestData stage answers q index
   \<and> dispatchEvaluations svc stage questions (answers @ [[]])
       = dispatchEvaluations svc stage questions answers"
proof -
  have p: "\<And>i. answer_or_placeholder (answers @ [[]]) i = answer_or_placeholder answers i"
    by (auto simp: answer_or_placeholder_def nth_append)
  have r: "requestData stage (answers @ [[]]) = requestData stage answers"
    by (intro ext) (simp add: requestData_def p)
  have l: "lastResortRequest stage questions (answers @ [[]]) = lastResortRequest stage questions answers"
    by (intro ext) (simp add: lastResortRequest_def p)
  have t: "evaluationTask svc stage (answers @ [[]]) = evaluationTask svc stage answers"
    by (intro ext) (simp add: evaluationTask_def r)
  have s: "settle svc stage questions (answers @ [[]]) = settle svc stage questions answers"
    by (intro ext) (simp add: settle_def l split: sum.splits)
  have d: "dispatchEvaluations svc stage questions (answers @ [[]])
       = dispatchEvaluations svc stage questions answers"
    by (simp add: dispatchEvaluations_def settledEvaluations_def t s)
  have u: "(length answers \<le> index \<or> answers ! index = []) \<longrightarrow>
        userAnswer (requestData stage answers q index) = unanswered
      \<and> userAnswer (lastResortRequest stage questions answers index) = unanswered"
    by (auto simp: requestData_def lastResortRequest_def answer_or_placeholder_def)
  have k: "(index < length answers \<and> answers ! index \<noteq> []) \<longrightarrow>
        userAnswer (requestData stage answers q index) = answers ! index
      \<and> userAnswer (lastResortRequest stage questions answers index) = answers ! index"
    by (auto simp: requestData_def lastResortRequest_def answer_or_placeholder_def)
  from u k r d show ?thesis by simp
qed

theorem empty_answer_is_unanswered_witness:
  "userAnswer (requestData ''hr'' [''a1'', []] ''q2'' 1) = unanswered
   \<and> userAnswer (requestData ''hr'' [''a1''] ''q2'' 1) = unanswered
   \<and> userAnswer (requestData ''hr'' [''a1'', []] ''q1'' 0) = ''a1''
   \<and> dispatchEvaluations failing_services ''hr'' [''q1'', ''q2'', ''q3''] [''a1'', []]
       = dispatchEvaluations failing_services ''hr'' [''q1'', ''q2'', ''q3''] [''a1'']"
proof -
  have a: "length [''a1'', []] \<le> 1 \<or> [''a1'', []] ! 1 = []" by simp
  have b: "length [''a1''] \<le> (1::nat) \<or> [''a1''] ! 1 = []" by simp
  have c: "(0::nat) < length [''a1'', []] \<and> [''a1'', []] ! 0 \<noteq> []" by simp
  from empty_answer_is_unanswered [of "[''a1'', []]" 1 "''hr''" "''q2''"] a
  have 1: "userAnswer (requestData ''hr'' [''a1'', []] ''q2'' 1) = unanswered" by blast
  from empty_answer_is_unanswered [of "[''a1'']" 1 "''hr''" "''q2''"] b
  have 2: "userAnswer (requestData ''hr'' [''a1''] ''q2'' 1) = unanswered" by blast
  from empty_answer_is_unanswered [of "[''a1'', []]" 0 "''hr''" "''q1''"] c
  have 3: "userAnswer (requestData ''hr'' [''a1'', []] ''q1'' 0) = ''a1''" by simp
  from empty_answer_is_unanswered [of "[''a1'']" 0 "''hr''" "''q1''" "[''q1'', ''q2'', ''q3'']"
      failing_services]
  have 4: "dispatchEvaluations failing_services ''hr'' [''q1'', ''q2'', ''q3''] [''a1'', []]
       = dispatchEvaluations failing_services ''hr'' [''q1'', ''q2'', ''q3''] [''a1'']"
    by simp
  from 1 2 3 4 show ?thesis by simp
qed

lemma summary_without_key:
  "apiKey w = None \<or> apiKey w = Some [] \<Longrightarrow>
     generateOverallSummary w es si = (fallback_object (fst (generateFallbackSummary es si)), [])"
  by (auto simp: generateOverallSummary_def Let_def)

lemma summary_with_key:
  "fst (generateOverallSummary w es si) =
     (if apiKey w = None \<or> apiKey w = Some [] then fallback_object (fst (generateFallbackSummary es si))
      else (case fetch w (buildOverallSummaryPrompt es si) of
                  Rejected error \<Rightarrow> fallback_object (fst (generateFallbackSummary es si))
                | Response ok status b \<Rightarrow>
                    if \<not> ok then fallback_object (fst (generateFallbackSummary es si))
                    else
                      (case Option.bind b (JSON_parse w) of
                         None \<Rightarrow> fallback_object (fst (generateFallbackSummary es si))
                       | Some aiResponse \<Rightarrow>
                           (case reply_content aiResponse of
                              Inl error \<Rightarrow> fallback_object (fst (generateFallbackSummary es si))
                            | Inr None \<Rightarrow> fallback_object (fst (generateFallbackSummary es si))
                            | Inr (Some content) \<Rightarrow>
                                if falsy content then fallback_object (fst (generateFallbackSummary es si))
                                else (case JSON_parse w (text_of w content) of
                                        None \<Rightarrow> fallback_object (fst (generateFallbackSummary es si))
                                      | Some summaryResult \<Rightarrow> summaryResult)))))"
  by (simp add: generateOverallSummary_def Let_def)

lemma summary_requests:
  "snd (generateOverallSummary w es si) =
     (if apiKey w = None \<or> apiKey w = Some [] then [] else [buildOverallSummaryPrompt es si])"
  by (simp add: generateOverallSummary_def Let_def)

text \<open>
  Claim C6. The summary generator resolves to the fallback summary when the credential
  is missing or empty (and then sends no request), when the call is rejected, when the
  status is not a success, when the body cannot be read or parsed, when the reply has
  no content or an empty one, and when the content cannot be parsed. Its result is a
  value in every case: it has no error to surface.
\<close>

theorem summary_failures_fall_back:
  "((apiKey w = None \<or> apiKey w = Some []) \<longrightarrow>
       generateOverallSummary w es si = (fallback_object (fst (generateFallbackSummary es si)), []))
   \<and> (fetch w (buildOverallSummaryPrompt es si) = Rejected e \<longrightarrow>
       fst (generateOverallSummary w es si) = fallback_object (fst (generateFallbackSummary es si)))
   \<and> (fetch w (buildOverallSummaryPrompt es si) = Response False status b \<longrightarrow>
       fst (generateOverallSummary w es si) = fallback_object (fst (generateFallbackSummary es si)))
   \<and> (fetch w (buildOverallSummaryPrompt es si) = Response True status b
        \<and> Option.bind b (JSON_parse w) = None \<longrightarrow>
       fst (generateOverallSummary w es si) = fallback_object (fst (generateFallbackSummary es si)))
   \<and> (fetch w (buildOverallSummaryPrompt es si) = Response True status b
        \<and> Option.bind b (JSON_parse w) = Some ai
        \<and> (reply_content ai = Inl t \<or> reply_content ai = Inr None
             \<or> (reply_content ai = Inr (Some c) \<and> falsy c)) \<longrightarrow>
       fst (generateOverallSummary w es si) = fallback_object (fst (generateFallbackSummary es si)))
   \<and> (fetch w (buildOverallSummaryPrompt es si) = Response True status b
        \<and> Option.bind b (JSON_parse w) = Some ai
        \<and> reply_content ai = Inr (Some c) \<and> JSON_parse w (text_of w c) = None \<longrightarrow>
       fst (generateOverallSummary w es si) = fallback_object (fst (generateFallbackSummary es si)))"
proof -
  have 1: "(apiKey w = None \<or> apiKey w = Some []) \<longrightarrow>
       generateOverallSummary w es si = (fallback_object (fst (generateFallbackSummary es si)), [])"
    using summary_without_key by blast
  have 2: "fetch w (buildOverallSummaryPrompt es si) = Rejected e \<longrightarrow>
       fst (generateOverallSummary w es si) = fallback_object (fst (generateFallbackSummary es si))"
    by (simp add: summary_with_key)
  have 3: "fetch w (buildOverallSummaryPrompt es si) = Response False status b \<longrightarrow>
       fst (generateOverallSummary w es si) = fallback_object (fst (generateFallbackSummary es si))"
    by (simp add: summary_with_key)
  have 4: "fetch w (buildOverallSummaryPrompt es si) = Response True status b
        \<and> Option.bind b (JSON_parse w) = None \<longrightarrow>
       fst (generateOverallSummary w es si) = fallback_object (fst (generateFallbackSummary es si))"
    by (simp add: summary_with_key)
  have 5: "fetch w (buildOverallSummaryPrompt es si) = Response True status b
        \<and> Option.bind b (JSON_parse w) = Some ai
        \<and> (reply_content ai = Inl t \<or> reply_content ai = Inr None
             \<or> (reply_content ai = Inr (Some c) \<and> falsy c)) \<longrightarrow>
       fst (generateOverallSummary w es si) = fallback_object (fst (generateFallbackSummary es si))"
    by (auto simp: summary_with_key)
  have 6: "fetch w (buildOverallSummaryPrompt es si) = Response True status b
        \<and> Option.bind b (JSON_parse w) = Some ai
        \<and> reply_content ai = Inr (Some c) \<and> JSON_parse w (text_of w c) = None \<longrightarrow>
       fst (generateOverallSummary w es si) = fallback_object (fst (generateFallbackSummary es si))"
    by (simp add: summary_with_key)
  from 1 2 3 4 5 6 show ?thesis by blast
qed

theorem summary_failures_fall_back_witness:
  "generateOverallSummary offline_world sample_evaluations stage_one
     = (fallback_object (fst (generateFallbackSummary sample_evaluations stage_one)), [])
   \<and> generateOverallSummary (online_world (Response False 500 (Some ''busy''))) sample_evaluations stage_one
     = (fallback_object (fst (generateFallbackSummary sample_evaluations stage_one)),
        [buildOverallSummaryPrompt sample_evaluations stage_one])
   \<and> generateOverallSummary (online_world (Response True 200 (Some ''EMPTY''))) sample_evaluations stage_one
     = (fallback_object (fst (generateFallbackSummary sample_evaluations stage_one)),
        [buildOverallSummaryPrompt sample_evaluations stage_one])
   \<and> generateOverallSummary (online_world (Response True 200 (Some ''PROSE''))) sample_evaluations stage_one
     = (fallback_object (fst (generateFallbackSummary sample_evaluations stage_one)),
        [buildOverallSummaryPrompt sample_evaluations stage_one])"
proof -
  let ?fb = "fallback_object (fst (generateFallbackSummary sample_evaluations stage_one))"
  let ?p = "buildOverallSummaryPrompt sample_evaluations stage_one"
  have k: "apiKey offline_world = None \<or> apiKey offline_world = Some []"
    by (simp add: offline_world_def)
  from summary_failures_fall_back [of offline_world sample_evaluations stage_one] k
  have 1: "generateOverallSummary offline_world sample_evaluations stage_one = (?fb, [])"
    by blast
  have key: "\<And>r. \<not> (apiKey (online_world r) = None \<or> apiKey (online_world r) = Some [])"
    by (simp add: online_world_def)
  have f: "\<And>r. fetch (online_world r) ?p = r" by (simp add: online_world_def)
  have s: "\<And>r. snd (generateOverallSummary (online_world r) sample_evaluations stage_one) = [?p]"
    using key by (simp add: summary_requests)
  from summary_failures_fall_back [of "online_world (Response False 500 (Some ''busy''))"
      sample_evaluations stage_one _ 500 "Some ''busy''"] f
  have "fst (generateOverallSummary (online_world (Response False 500 (Some ''busy'')))
          sample_evaluations stage_one) = ?fb"
    by blast
  with s have 2: "generateOverallSummary (online_world (Response False 500 (Some ''busy'')))
          sample_evaluations stage_one = (?fb, [?p])"
    by (simp add: prod_eq_iff)
  have pe: "Option.bind (Some ''EMPTY'') (JSON_parse (online_world (Response True 200 (Some ''EMPTY''))))
          = Some (text_reply [])"
    by (simp add: online_world_def sample_parse_def)
  have ce: "reply_content (text_reply []) = Inr (Some (JStr [])) \<and> falsy (JStr [])"
    by (simp add: reply_content_def text_reply_def)
  from summary_failures_fall_back [of "online_world (Response True 200 (Some ''EMPTY''))"
      sample_evaluations stage_one _ 200 "Some ''EMPTY''" "text_reply []" _ "JStr []"] f pe ce
  have "fst (generateOverallSummary (online_world (Response True 200 (Some ''EMPTY'')))
          sample_evaluations stage_one) = ?fb"
    by blast
  with s have 3: "generateOverallSummary (online_world (Response True 200 (Some ''EMPTY'')))
          sample_evaluations stage_one = (?fb, [?p])"
    by (simp add: prod_eq_iff)
  have pp: "Option.bind (Some ''PROSE'') (JSON_parse (online_world (Response True 200 (Some ''PROSE''))))
          = Some (text_reply ''not json'')"
    by (simp add: online_world_def sample_parse_def)
  have cp: "reply_content (text_reply ''not json'') = Inr (Some (JStr ''not json''))"
    by (simp add: reply_content_def text_reply_def)
  have up: "JSON_parse (online_world (Response True 200 (Some ''PROSE'')))
              (text_of (online_world (Response True 200 (Some ''PROSE''))) (JStr ''not json'')) = None"
    by (simp add: online_world_def sample_parse_def)
  from summary_failures_fall_back [of "online_world (Response True 200 (Some ''PROSE''))"
      sample_evaluations stage_one _ 200 "Some ''PROSE''" "text_reply ''not json''" _
      "JStr ''not json''"] f pp cp up
  have "fst (generateOverallSummary (online_world (Response True 200 (Some ''PROSE'')))
          sample_evaluations stage_one) = ?fb"
    by blast
  with s have 4: "generateOverallSummary (online_world (Response True 200 (Some ''PROSE'')))
          sample_evaluations stage_one = (?fb, [?p])"
    by (simp add: prod_eq_iff)
  from 1 2 3 4 show ?thesis by blast
qed

text \<open>
  Claim C3. The claim is that the fallback summary has the fields of the summary the
  aggregation model is asked for, \<open>summary\<close> and \<open>overallLevel\<close> among them. The
  object generateFallbackSummary returns has the two fields \<open>overallLevel\<close> and
  \<open>overallSummary\<close>: it has no field \<open>summary\<close>, which the prompt asks for, and its
  text is under a name the prompt does not ask for.
\<close>

theorem fallback_summary_fields:
  "field_names (fallback_object (fst (generateFallbackSummary es si)))
     = [''overallLevel'', ''overallSummary'']
   \<and> ''summary'' \<notin> set (field_names (fallback_object (fst (generateFallbackSummary es si))))
   \<and> ''summary'' \<in> set requested_reply_fields
   \<and> ''overallSummary'' \<notin> set requested_reply_fields"
  by (simp add: fallback_object_def requested_reply_fields_def)

lemma new_evaluation_id_not_empty: "new_evaluation_id w \<noteq> []"
  by (simp add: new_evaluation_id_def)

lemma report_id_given: "i \<noteq> [] \<Longrightarrow> report_id w (Some i) = i"
  by (simp add: report_id_def)

lemma processEvaluation_id:
  "processEvaluation w svc stage questions answers title setIndex given = Inr report \<Longrightarrow>
     evaluationId report = report_id w given"
  by (auto simp: processEvaluation_def Let_def split: sum.splits if_splits)

text \<open>
  Claim C8. With the asynchronous flag set, the handler replies with status 200 and
  \<open>{evaluationId, message, status: "processing"}\<close> and hands the pipeline to a timer;
  every report that job produces, in whatever world it runs, carries the identifier of
  the reply; and the reply is a function of the clock and the random source alone, so
  no call of the evaluator, the synthesizer or the aggregation service precedes it.
\<close>

theorem async_reply_identifies_report:
  "\<exists>job. POST w svc stage questions answers title setIndex True =
       (\<lparr>httpStatus = 200,
         replyBody = Processing (new_evaluation_id w) evaluation_started ''processing''\<rparr>, Some job)
     \<and> jobEvaluationId job = new_evaluation_id w
     \<and> (\<forall>w' svc' report. runJob w' svc' job = Inr report \<longrightarrow>
            evaluationId report = new_evaluation_id w)
     \<and> (\<forall>w' svc'. dateNow w' = dateNow w \<and> mathRandom36 w' = mathRandom36 w \<longrightarrow>
            POST w' svc' stage questions answers title setIndex True
              = POST w svc stage questions answers title setIndex True)"
proof -
  let ?job = "\<lparr>jobStage = stage, jobQuestions = questions, jobAnswers = answers,
               jobTitle = title, jobSetIndex = setIndex, jobEvaluationId = new_evaluation_id w\<rparr>"
  have p: "POST w svc stage questions answers title setIndex True =
       (\<lparr>httpStatus = 200,
         replyBody = Processing (new_evaluation_id w) evaluation_started ''processing''\<rparr>, Some ?job)"
    by (simp add: POST_def Let_def)
  have r: "\<forall>w' svc' report. runJob w' svc' ?job = Inr report \<longrightarrow>
            evaluationId report = new_evaluation_id w"
  proof (intro allI impI)
    fix w' svc' report
    assume "runJob w' svc' ?job = Inr report"
    then have "evaluationId report = report_id w' (Some (new_evaluation_id w))"
      by (simp add: runJob_def processEvaluation_id)
    then show "evaluationId report = new_evaluation_id w"
      by (simp add: report_id_given new_evaluation_id_not_empty)
  qed
  have i: "\<forall>w' svc'. dateNow w' = dateNow w \<and> mathRandom36 w' = mathRandom36 w \<longrightarrow>
            POST w' svc' stage questions answers title setIndex True
              = POST w svc stage questions answers title setIndex True"
    by (simp add: POST_def Let_def new_evaluation_id_def)
  have j: "jobEvaluationId ?job = new_evaluation_id w" by simp
  from p r i j show ?thesis by blast
qed

lemma sample_id: "new_evaluation_id offline_world = ''eval_1700_4fzyo82mv''"
  by (simp add: new_evaluation_id_def offline_world_def show_nat.simps)

theorem async_reply_identifies_report_witness:
  "fst (POST offline_world failing_services ''hr'' [''q1'', ''q2'', ''q3''] [''a1''] ''HR'' 0 True)
     = \<lparr>httpStatus = 200,
        replyBody = Processing ''eval_1700_4fzyo82mv'' evaluation_started ''processing''\<rparr>
   \<and> (\<exists>job report.
         snd (POST offline_world failing_services ''hr'' [''q1'', ''q2'', ''q3''] [''a1''] ''HR'' 0 True)
           = Some job
       \<and> runJob (online_world (Rejected NonError)) failing_services job = Inr report
       \<and> evaluationId report = ''eval_1700_4fzyo82mv''
       \<and> length (individualEvaluations report) = 3)"
proof -
  from async_reply_identifies_report [of offline_world failing_services "''hr''"
      "[''q1'', ''q2'', ''q3'']" "[''a1'']" "''HR''" 0]
  obtain job where
    p: "POST offline_world failing_services ''hr'' [''q1'', ''q2'', ''q3''] [''a1''] ''HR'' 0 True =
       (\<lparr>httpStatus = 200,
         replyBody = Processing (new_evaluation_id offline_world) evaluation_started ''processing''\<rparr>,
        Some job)" and
    r: "\<forall>w' svc' report. runJob w' svc' job = Inr report \<longrightarrow>
            evaluationId report = new_evaluation_id offline_world"
    by blast
  from p have j: "job = \<lparr>jobStage = ''hr'', jobQuestions = [''q1'', ''q2'', ''q3''],
      jobAnswers = [''a1''], jobTitle = ''HR'', jobSetIndex = 0,
      jobEvaluationId = new_evaluation_id offline_world\<rparr>"
    by (simp add: POST_def Let_def)
  let ?w = "online_world (Rejected NonError)"
  let ?evs = "[echo_entry ''q1'' ''a1'', echo_entry ''q2'' unanswered, echo_entry ''q3'' unanswered]"
  have s: "fst (generateOverallSummary ?w ?evs
      \<lparr>StageInfo.stageType = ''hr'', stageTitle = ''HR'', questionSetIndex = 0,
       questionCount = length [''q1'', ''q2'', ''q3'']\<rparr>) \<noteq> JNull"
    by (simp add: summary_with_key online_world_def fallback_object_def)
  have "\<exists>report. runJob ?w failing_services job = Inr report
      \<and> length (individualEvaluations report) = 3"
    using s by (simp add: j runJob_def processEvaluation_of_dispatch [OF failing_dispatch])
  then obtain report where
    run: "runJob ?w failing_services job = Inr report" and
    len: "length (individualEvaluations report) = 3"
    by blast
  from r run have "evaluationId report = new_evaluation_id offline_world" by blast
  with p run len show ?thesis by (simp add: sample_id)
qed

text \<open>
  Claim C1. The claim is that the pipeline produces, for every list of questions and
  of answers and whichever calls of the evaluator fail, a report with one evaluation
  per question. Here every call of the evaluator fails and the synthesizer always
  returns, so the dispatcher returns the three evaluations, in order. The aggregation
  service replies with the content \<open>null\<close>, which \<open>JSON.parse\<close> reads as \<open>null\<close>: the
  summary is \<open>null\<close>, the statement that logs the finished report reads
  \<open>overallSummary.overallLevel\<close> and throws inside the \<open>try\<close> block, and
  processEvaluation throws its processing error. No report is produced, and the
  synchronous handler replies with status 500.
\<close>

theorem null_summary_produces_no_report:
  "(\<forall>request reason. \<exists>v. generateFallbackEvaluation failing_services request reason = Inr v)
   \<and> (\<forall>i request. \<exists>e. evaluateAnswer failing_services i request = Inl e)
   \<and> dispatchEvaluations failing_services ''hr'' [''q1'', ''q2'', ''q3''] [''a1'']
     = Inr [echo_entry ''q1'' ''a1'', echo_entry ''q2'' unanswered, echo_entry ''q3'' unanswered]
   \<and> fst (generateOverallSummary null_world
            [echo_entry ''q1'' ''a1'', echo_entry ''q2'' unanswered, echo_entry ''q3'' unanswered]
            \<lparr>StageInfo.stageType = ''hr'', stageTitle = ''HR'', questionSetIndex = 0,
             questionCount = 3\<rparr>) = JNull
   \<and> processEvaluation null_world failing_services ''hr'' [''q1'', ''q2'', ''q3''] [''a1''] ''HR'' 0 None
       = Inl (Error (processing_failed_prefix @ null_read_message_v8))
   \<and> POST null_world failing_services ''hr'' [''q1'', ''q2'', ''q3''] [''a1''] ''HR'' 0 False
       = (\<lparr>httpStatus = 500,
           replyBody = Failure set_evaluation_failed
                         (processing_failed_prefix @ null_read_message_v8)\<rparr>, None)"
proof -
  let ?evs = "[echo_entry ''q1'' ''a1'', echo_entry ''q2'' unanswered, echo_entry ''q3'' unanswered]"
  have g: "\<forall>request reason. \<exists>v. generateFallbackEvaluation failing_services request reason = Inr v"
    by (simp add: failing_services_def echo_fallback_def)
  have f: "\<forall>i request. \<exists>e. evaluateAnswer failing_services i request = Inl e"
    by (simp add: failing_services_def failing_evaluator_def)
  have c: "reply_content (text_reply ''null'') = Inr (Some (JStr ''null''))"
    by (simp add: reply_content_def text_reply_def)
  have s: "\<And>si. fst (generateOverallSummary null_world ?evs si) = JNull"
    by (simp add: summary_with_key null_world_def online_world_def sample_parse_def c)
  have m: "nullReadMessage null_world = null_read_message_v8"
    by (simp add: null_world_def online_world_def)
  have p: "processEvaluation null_world failing_services ''hr'' [''q1'', ''q2'', ''q3''] [''a1''] ''HR'' 0 None
       = Inl (Error (processing_failed_prefix @ null_read_message_v8))"
    using s by (simp add: processEvaluation_of_dispatch [OF failing_dispatch] processing_failed_def
        type_error_def m)
  have q: "POST null_world failing_services ''hr'' [''q1'', ''q2'', ''q3''] [''a1''] ''HR'' 0 False
       = (\<lparr>httpStatus = 500,
           replyBody = Failure set_evaluation_failed
                         (processing_failed_prefix @ null_read_message_v8)\<rparr>, None)"
    by (simp add: POST_def p)
  from g f failing_dispatch s p q show ?thesis by simp
qed

end
